theory Spec2Isabelle
  imports Complex_Main
begin

section \<open>Numbers: numpy.float64 with its special values\<close>

text \<open>
  The program computes with Python floats and numpy.float64 values. A finite value is
  taken as the real number it denotes (rounding, overflow and the sign of zero are not
  part of this model); the three special values and the IEEE-754 rules by which numpy
  produces and propagates them are, because the program's control flow meets them:
  numpy divides by zero without raising, and every comparison with NaN is false.
\<close>

datatype npfloat = Fin real | PInf | NInf | NaN

fun fneg :: "npfloat \<Rightarrow> npfloat" where
  "fneg (Fin a) = Fin (- a)"
| "fneg PInf = NInf"
| "fneg NInf = PInf"
| "fneg NaN = NaN"

fun fadd :: "npfloat \<Rightarrow> npfloat \<Rightarrow> npfloat" where
  "fadd (Fin a) (Fin b) = Fin (a + b)"
| "fadd NaN _ = NaN"
| "fadd _ NaN = NaN"
| "fadd PInf NInf = NaN"
| "fadd NInf PInf = NaN"
| "fadd PInf _ = PInf"
| "fadd _ PInf = PInf"
| "fadd NInf _ = NInf"
| "fadd _ NInf = NInf"

definition fsub :: "npfloat \<Rightarrow> npfloat \<Rightarrow> npfloat" where
  "fsub a b = fadd a (fneg b)"

text \<open>The product of an infinity and a finite value: the sign decides, zero gives NaN.\<close>

definition inf_times :: "bool \<Rightarrow> real \<Rightarrow> npfloat" where
  "inf_times pos a =
     (if a = 0 then NaN else if (0 < a) = pos then PInf else NInf)"

fun fmul :: "npfloat \<Rightarrow> npfloat \<Rightarrow> npfloat" where
  "fmul (Fin a) (Fin b) = Fin (a * b)"
| "fmul NaN _ = NaN"
| "fmul _ NaN = NaN"
| "fmul PInf (Fin b) = inf_times True b"
| "fmul NInf (Fin b) = inf_times False b"
| "fmul (Fin a) PInf = inf_times True a"
| "fmul (Fin a) NInf = inf_times False a"
| "fmul PInf PInf = PInf"
| "fmul NInf NInf = PInf"
| "fmul PInf NInf = NInf"
| "fmul NInf PInf = NInf"

text \<open>
  Division as numpy does it: a finite value over zero is an infinity of the numerator's
  sign (the zero is taken as +0.0), zero over zero and infinity over infinity are NaN.
\<close>

fun fdiv :: "npfloat \<Rightarrow> npfloat \<Rightarrow> npfloat" where
  "fdiv (Fin a) (Fin b) =
     (if b \<noteq> 0 then Fin (a / b)
      else if a = 0 then NaN else if 0 < a then PInf else NInf)"
| "fdiv NaN _ = NaN"
| "fdiv _ NaN = NaN"
| "fdiv (Fin a) PInf = Fin 0"
| "fdiv (Fin a) NInf = Fin 0"
| "fdiv PInf (Fin b) = (if 0 \<le> b then PInf else NInf)"
| "fdiv NInf (Fin b) = (if 0 \<le> b then NInf else PInf)"
| "fdiv PInf PInf = NaN"
| "fdiv PInf NInf = NaN"
| "fdiv NInf PInf = NaN"
| "fdiv NInf NInf = NaN"

fun fabs :: "npfloat \<Rightarrow> npfloat" where
  "fabs (Fin a) = Fin \<bar>a\<bar>"
| "fabs PInf = PInf"
| "fabs NInf = PInf"
| "fabs NaN = NaN"

text \<open>The comparison \<^verbatim>\<open>a > b\<close>: false as soon as one side is NaN.\<close>

fun fgt :: "npfloat \<Rightarrow> npfloat \<Rightarrow> bool" where
  "fgt (Fin a) (Fin b) = (b < a)"
| "fgt NaN _ = False"
| "fgt _ NaN = False"
| "fgt PInf PInf = False"
| "fgt PInf _ = True"
| "fgt NInf _ = False"
| "fgt (Fin a) NInf = True"
| "fgt (Fin a) PInf = False"

fun fsqrt :: "npfloat \<Rightarrow> npfloat" where
  "fsqrt (Fin a) = (if a < 0 then NaN else Fin (sqrt a))"
| "fsqrt PInf = PInf"
| "fsqrt NInf = NaN"
| "fsqrt NaN = NaN"

fun isfinite :: "npfloat \<Rightarrow> bool" where
  "isfinite (Fin a) = True"
| "isfinite _ = False"

text \<open>
  \<^verbatim>\<open>numpy.mean(a)\<close> is the sum over the number of elements (NaN for an empty array);
  \<^verbatim>\<open>numpy.std(a, ddof=1)\<close> is the square root of the sum of the squared deviations
  from that mean over \<^verbatim>\<open>max(N - 1, 0)\<close>.
\<close>

definition np_sum :: "npfloat list \<Rightarrow> npfloat" where
  "np_sum xs = foldl fadd (Fin 0) xs"

definition np_mean :: "npfloat list \<Rightarrow> npfloat" where
  "np_mean xs = fdiv (np_sum xs) (Fin (real (length xs)))"

definition np_std_ddof1 :: "npfloat list \<Rightarrow> npfloat" where
  "np_std_ddof1 xs =
     (let arrmean = np_mean xs;
          x = map (\<lambda>a. fsub a arrmean) xs;
          ret = np_sum (map (\<lambda>d. fmul d d) x)
      in fsqrt (fdiv ret (Fin (real (length xs - 1)))))"

section \<open>Errors and indexing\<close>

datatype error =
    NameError string
  | ValueError
  | IndexError
  | UnboundLocalError
  | VisaIOError

definition ebind :: "error + 'a \<Rightarrow> ('a \<Rightarrow> error + 'b) \<Rightarrow> error + 'b" where
  "ebind m f = (case m of Inl e \<Rightarrow> Inl e | Inr x \<Rightarrow> f x)"

text \<open>\<^verbatim>\<open>xs[n]\<close> for a constant index \<open>n\<close>: IndexError out of range.\<close>

definition idx :: "'a list \<Rightarrow> nat \<Rightarrow> error + 'a" where
  "idx xs n = (if n < length xs then Inr (xs ! n) else Inl IndexError)"

text \<open>
  A detector reply is raw text, of a type \<open>'r\<close> left open; \<open>flt\<close> stands for Python's
  \<^verbatim>\<open>float(a.strip())\<close> on it, \<open>None\<close> where that raises ValueError.
  \<open>floats\<close> is the comprehension \<^verbatim>\<open>[float(a.strip()) for a in rs]\<close>.
\<close>

definition to_float :: "('r \<Rightarrow> npfloat option) \<Rightarrow> 'r \<Rightarrow> error + npfloat" where
  "to_float flt a = (case flt a of None \<Rightarrow> Inl ValueError | Some v \<Rightarrow> Inr v)"

fun floats :: "('r \<Rightarrow> npfloat option) \<Rightarrow> 'r list \<Rightarrow> error + npfloat list" where
  "floats flt [] = Inr []"
| "floats flt (a # rs) =
     ebind (to_float flt a) (\<lambda>v. ebind (floats flt rs) (\<lambda>vs. Inr (v # vs)))"

section \<open>The AC-DC difference of one cycle\<close>

record 'r readings =
  std_readings :: "'r list"
  dut_readings :: "'r list"

text \<open>
  What \<open>acdc_calc\<close> returns: the two arrays of converted readings, the AC-DC
  difference, the discard criterion and the corrected DC voltage. The timestamp of the
  source is the wall clock and is left out.
\<close>

record acdc =
  res_std :: "npfloat list"
  res_dut :: "npfloat list"
  dif :: npfloat
  Delta :: npfloat
  adj_dc :: npfloat

definition acdc_calc ::
  "('r \<Rightarrow> npfloat option) \<Rightarrow> 'r readings \<Rightarrow> npfloat list \<Rightarrow> npfloat \<Rightarrow> error + acdc" where
  "acdc_calc flt rd N vdc_atual =
     ebind (idx N 0) (\<lambda>n_X.
     ebind (idx N 2) (\<lambda>n_Y.
     ebind (floats flt (std_readings rd)) (\<lambda>x.
     ebind (floats flt (dut_readings rd)) (\<lambda>y.
     ebind (idx x 0) (\<lambda>x0. ebind (idx x 2) (\<lambda>x2. ebind (idx x 4) (\<lambda>x4.
     ebind (idx x 1) (\<lambda>x1. ebind (idx x 3) (\<lambda>x3.
     ebind (idx y 0) (\<lambda>y0. ebind (idx y 2) (\<lambda>y2. ebind (idx y 4) (\<lambda>y4.
     ebind (idx y 1) (\<lambda>y1. ebind (idx y 3) (\<lambda>y3.
       let Xac = np_mean [x0, x2, x4];
           Xdc = np_mean [x1, x3];
           Yac = np_mean [y0, y2, y4];
           Ydc = np_mean [y1, y3];
           X = fsub (fdiv Xac Xdc) (Fin 1);
           Y = fsub (fdiv Yac Ydc) (Fin 1);
           delta_m = fmul (Fin 1000000)
                       (fdiv (fsub (fdiv X n_X) (fdiv Y n_Y)) (fadd (Fin 1) (fdiv Y n_Y)));
           Delta' = fmul (Fin 1000000) (fsub Yac Ydc);
           adj = fmul vdc_atual (fadd (Fin 1) (fdiv (fsub Yac Ydc) (fmul n_Y Ydc)))
       in Inr \<lparr>res_std = x, res_dut = y, dif = delta_m, Delta = Delta', adj_dc = adj\<rparr>
     ))))))))))))))"

section \<open>Instruments, console and record file\<close>

text \<open>
  The source, the switch and the voltmeter are reached through GPIB writes and one
  query. The model keeps the commands in the order they were issued (\<open>trace\<close>), the
  replies the voltmeter will give to the coming \<^verbatim>\<open>:READ?\<close> queries (\<open>feed\<close>; a
  query with no reply left times out) and the rows appended to the record file
  (\<open>registro\<close>). A command's text is kept as its parts: \<open>SOUR_VOLT 1 v\<close> is
  \<^verbatim>\<open>"SOUR1:VOLT {:.3f} VRMS".format(v)\<close>. Console output and the ambient sensor do
  not act on the measurement and are left out.
\<close>

datatype src_cmd =
    RST | CLS | IDN
  | OUTP_LOAD nat int
  | SOUR_FUNC_SIN nat
  | SOUR_VOLT nat npfloat
  | SOUR_FREQ nat npfloat
  | OUTP nat bool

text \<open>The switch commands \<^verbatim>\<open>chr(2)\<close>, \<^verbatim>\<open>chr(4)\<close>, \<^verbatim>\<open>chr(6)\<close>.\<close>

datatype sw_cmd = reset | ac | dc

datatype event =
    Source src_cmd
  | Switch sw_cmd
  | Dvm string
  | Read
  | Sleep nat

record n_array =
  n_results :: "npfloat list"
  n_Xi :: "npfloat list"
  n_X0 :: npfloat
  n_Yi :: "npfloat list"
  n_Y0 :: npfloat
  n_k :: "int list"
  n_nX :: "npfloat list"
  n_nY :: "npfloat list"

datatype 'r row =
    Cabecalho
  | RegFrequencia 'r n_array npfloat
  | RegLinha acdc npfloat
  | RegMedia npfloat npfloat

record 'r world =
  trace :: "event list"
  feed :: "'r list"
  registro :: "'r row list"

type_synonym ('r, 'a) io = "'r world \<Rightarrow> (error + 'a) \<times> 'r world"

definition ret :: "'a \<Rightarrow> ('r, 'a) io" where
  "ret x = (\<lambda>w. (Inr x, w))"

definition raise :: "error \<Rightarrow> ('r, 'a) io" where
  "raise e = (\<lambda>w. (Inl e, w))"

definition bnd :: "('r, 'a) io \<Rightarrow> ('a \<Rightarrow> ('r, 'b) io) \<Rightarrow> ('r, 'b) io" where
  "bnd m f = (\<lambda>w. case m w of (Inl e, w') \<Rightarrow> (Inl e, w') | (Inr x, w') \<Rightarrow> f x w')"

definition thn :: "('r, 'a) io \<Rightarrow> ('r, 'b) io \<Rightarrow> ('r, 'b) io" where
  "thn m n = bnd m (\<lambda>_. n)"

definition lift :: "error + 'a \<Rightarrow> ('r, 'a) io" where
  "lift m = (case m of Inl e \<Rightarrow> raise e | Inr x \<Rightarrow> ret x)"

definition emit :: "event list \<Rightarrow> ('r, unit) io" where
  "emit es = (\<lambda>w. (Inr (), w\<lparr>trace := trace w @ es\<rparr>))"

definition source_write :: "src_cmd \<Rightarrow> ('r, unit) io" where
  "source_write c = emit [Source c]"

definition sw_write_raw :: "sw_cmd \<Rightarrow> ('r, unit) io" where
  "sw_write_raw c = emit [Switch c]"

definition dvm_write :: "string \<Rightarrow> ('r, unit) io" where
  "dvm_write c = emit [Dvm c]"

definition dvm_query :: "('r, 'r) io" where
  "dvm_query = (\<lambda>w. case feed w of
       [] \<Rightarrow> (Inl VisaIOError, w\<lparr>trace := trace w @ [Read]\<rparr>)
     | r # rs \<Rightarrow> (Inr r, w\<lparr>trace := trace w @ [Read], feed := rs\<rparr>))"

text \<open>
  \<open>espera\<close> sleeps \<^verbatim>\<open>int(segundos * 10)\<close> times a tenth of a second (not at all for
  a negative argument); \<open>Sleep n\<close> stands for the \<open>n\<close> sleeps.
\<close>

definition espera :: "real \<Rightarrow> ('r, unit) io" where
  "espera segundos = emit [Sleep (nat \<lfloor>segundos * 10\<rfloor>)]"

definition ler_std :: "('r, 'r) io" where
  "ler_std =
     thn (dvm_write ''SENS:CHAN 2'')
    (thn (dvm_write '':SENS:VOLT:CHAN2:RANG 0.01'')
    (thn (dvm_write ''INIT:CONT OFF'')
     dvm_query))"

definition ler_dut :: "('r, 'r) io" where
  "ler_dut =
     thn (dvm_write ''SENS:CHAN 1'')
    (thn (dvm_write '':SENS:VOLT:CHAN1:RANG 0.01'')
    (thn (dvm_write ''INIT:CONT OFF'')
     dvm_query))"

text \<open>
  \<open>print_std\<close> and \<open>print_dut\<close> convert the last reading for the console: what is
  left of them here is the ValueError of a reply that is not a number.
\<close>

definition print_std :: "('r \<Rightarrow> npfloat option) \<Rightarrow> 'r list \<Rightarrow> ('r, unit) io" where
  "print_std flt std_rs =
     (if std_rs = [] then raise IndexError
      else bnd (lift (to_float flt (last std_rs))) (\<lambda>_. ret ()))"

definition print_dut :: "('r \<Rightarrow> npfloat option) \<Rightarrow> 'r list \<Rightarrow> ('r, unit) io" where
  "print_dut flt dut_rs =
     (if dut_rs = [] then raise IndexError
      else bnd (lift (to_float flt (last dut_rs))) (\<lambda>_. ret ()))"

text \<open>
  The four lines that follow every settling wait of the source: read the standard, read
  the device, append both, print both.
\<close>

definition ler_par ::
  "('r \<Rightarrow> npfloat option) \<Rightarrow> 'r list \<times> 'r list \<Rightarrow> ('r, 'r list \<times> 'r list) io" where
  "ler_par flt p =
     bnd ler_std (\<lambda>a.
     bnd ler_dut (\<lambda>b.
     thn (print_std flt (fst p @ [a]))
    (thn (print_dut flt (snd p @ [b]))
     (ret (fst p @ [a], snd p @ [b])))))"

record 'r config =
  wait_time :: int
  heating_time :: int
  repeticoes :: int
  vac_nominal :: npfloat
  vdc_nominal :: npfloat
  freq_array :: "'r list"
  load :: int

definition stop_instruments :: "('r, unit) io" where
  "stop_instruments =
     thn (sw_write_raw reset)
    (thn (espera 1)
    (thn (source_write (OUTP 1 False))
     (source_write (OUTP 2 False))))"

section \<open>One measurement cycle\<close>

text \<open>
  One phase of the cycle: route the switch, wait the settling time, read the pair.
  \<open>measure_cycle\<close> is the \<open>measure\<close> of the source.
\<close>

definition fase ::
  "('r \<Rightarrow> npfloat option) \<Rightarrow> 'r config \<Rightarrow> sw_cmd \<Rightarrow> 'r list \<times> 'r list
     \<Rightarrow> ('r, 'r list \<times> 'r list) io" where
  "fase flt cfg c p =
     thn (sw_write_raw c)
    (thn (espera (real_of_int (wait_time cfg)))
     (ler_par flt p))"

definition measure_cycle ::
  "('r \<Rightarrow> npfloat option) \<Rightarrow> 'r config \<Rightarrow> npfloat \<Rightarrow> npfloat \<Rightarrow> npfloat \<Rightarrow> 'r list
     \<Rightarrow> ('r, 'r readings) io" where
  "measure_cycle flt cfg freq vdc_atual vac_atual ciclo_ac =
     thn (source_write (SOUR_VOLT 2 vac_atual))
    (thn (source_write (SOUR_FREQ 2 freq))
    (thn (source_write (SOUR_VOLT 1 vdc_atual))
    (thn (source_write (SOUR_FREQ 1 (Fin 100000)))
    (thn (espera 2)
    (bnd (if ciclo_ac = [] then fase flt cfg ac ([], [])
          else bnd (lift (idx ciclo_ac 0)) (\<lambda>c0.
               bnd (lift (idx ciclo_ac 1)) (\<lambda>c1.
               thn (print_std flt [c0])
              (thn (print_dut flt [c1])
               (ret ([c0], [c1]))))))
       (\<lambda>p0.
     bnd (fase flt cfg dc p0) (\<lambda>p1.
     bnd (fase flt cfg ac p1) (\<lambda>p2.
     bnd (fase flt cfg dc p2) (\<lambda>p3.
     bnd (fase flt cfg ac p3) (\<lambda>p4.
     ret \<lparr>std_readings = fst p4, dut_readings = snd p4\<rparr>))))))))))"

section \<open>The linearity coefficients\<close>

text \<open>
  One pass of the loop of \<open>n_measure\<close>: \<open>i\<close> even applies 0.99 of the nominal DC
  voltage with weight -100, \<open>i\<close> odd applies 1.01 of it with weight 100. The state is
  the three lists \<open>(std_readings, dut_readings, k)\<close>.
\<close>

definition n_iter ::
  "('r \<Rightarrow> npfloat option) \<Rightarrow> 'r config \<Rightarrow> int \<Rightarrow> 'r list \<times> 'r list \<times> int list
     \<Rightarrow> ('r, 'r list \<times> 'r list \<times> int list) io" where
  "n_iter flt cfg i st =
     (let Vi = (if i mod 2 = 0 then fmul (Fin 0.99) (vdc_nominal cfg)
                else fmul (Fin 1.01) (vdc_nominal cfg));
          k' = snd (snd st) @ [if i mod 2 = 0 then - 100 else 100]
      in thn (sw_write_raw ac)
        (thn (espera 2)
        (thn (source_write (SOUR_VOLT 1 Vi))
        (thn (espera 2)
        (thn (sw_write_raw dc)
        (thn (espera (real_of_int (wait_time cfg)))
        (bnd (ler_par flt (fst st, fst (snd st))) (\<lambda>p.
         ret (fst p, snd p, k')))))))))"

fun n_loop ::
  "('r \<Rightarrow> npfloat option) \<Rightarrow> 'r config \<Rightarrow> int list \<Rightarrow> 'r list \<times> 'r list \<times> int list
     \<Rightarrow> ('r, 'r list \<times> 'r list \<times> int list) io" where
  "n_loop flt cfg [] st = ret st"
| "n_loop flt cfg (i # is) st = bnd (n_iter flt cfg i st) (n_loop flt cfg is)"

text \<open>
  The computation that ends \<open>n_measure\<close>: the baseline pair is taken off the lists,
  the deviations \<^verbatim>\<open>(Xi/X0 - 1) * k\<close> are formed elementwise, and the results are
  their means and standard deviations.
\<close>

definition n_calc ::
  "('r \<Rightarrow> npfloat option) \<Rightarrow> 'r list \<Rightarrow> 'r list \<Rightarrow> int list \<Rightarrow> error + n_array" where
  "n_calc flt std_rs dut_rs k =
     ebind (idx std_rs 0) (\<lambda>a. ebind (to_float flt a) (\<lambda>X0.
     ebind (idx dut_rs 0) (\<lambda>b. ebind (to_float flt b) (\<lambda>Y0.
     ebind (floats flt (tl std_rs)) (\<lambda>Xi.
     ebind (floats flt (tl dut_rs)) (\<lambda>Yi.
       let nX = map2 (\<lambda>x w. fmul (fsub (fdiv x X0) (Fin 1)) (Fin (real_of_int w))) Xi k;
           nY = map2 (\<lambda>y w. fmul (fsub (fdiv y Y0) (Fin 1)) (Fin (real_of_int w))) Yi k
       in Inr \<lparr>n_results = [np_mean nX, np_std_ddof1 nX, np_mean nY, np_std_ddof1 nY],
               n_Xi = Xi, n_X0 = X0, n_Yi = Yi, n_Y0 = Y0, n_k = k, n_nX = nX, n_nY = nY\<rparr>
     ))))))"

definition n_measure ::
  "('r \<Rightarrow> npfloat option) \<Rightarrow> 'r config \<Rightarrow> npfloat \<Rightarrow> int \<Rightarrow> ('r, n_array) io" where
  "n_measure flt cfg freq M =
     (let M' = (if M mod 2 \<noteq> 0 then M + 1 else M)
      in thn (source_write (SOUR_VOLT 2 (vac_nominal cfg)))
        (thn (source_write (SOUR_FREQ 2 freq))
        (thn (source_write (SOUR_VOLT 1 (vdc_nominal cfg)))
        (thn (espera 2)
        (thn (sw_write_raw dc)
        (thn (espera (real_of_int (wait_time cfg)))
        (bnd (ler_par flt ([], [])) (\<lambda>p.
         bnd (n_loop flt cfg [1..M'] (fst p, snd p, [])) (\<lambda>st.
         thn (sw_write_raw ac)
         (lift (n_calc flt (fst st) (fst (snd st)) (snd (snd st)))))))))))))"

section \<open>The equilibrium AC voltage\<close>

fun fge :: "npfloat \<Rightarrow> npfloat \<Rightarrow> bool" where
  "fge (Fin a) (Fin b) = (b \<le> a)"
| "fge NaN _ = False"
| "fge _ NaN = False"
| "fge PInf _ = True"
| "fge NInf NInf = True"
| "fge NInf _ = False"
| "fge (Fin a) NInf = True"
| "fge (Fin a) PInf = False"

fun feq :: "npfloat \<Rightarrow> npfloat \<Rightarrow> bool" where
  "feq NaN _ = False"
| "feq _ NaN = False"
| "feq a b = (a = b)"

fun isnan :: "npfloat \<Rightarrow> bool" where
  "isnan NaN = True"
| "isnan _ = False"

text \<open>
  \<^verbatim>\<open>numpy.interp(x, xp, fp)\<close> is a library function. It is modelled from its
  documentation, for sample points \<open>xp\<close> in increasing order: the value is \<open>fp[0]\<close>
  for \<open>x < xp[0]\<close> and \<open>fp[-1]\<close> for \<open>x > xp[-1]\<close> (the defaults of its
  \<^verbatim>\<open>left\<close> and \<^verbatim>\<open>right\<close>), and in between the point on the segment through
  the two neighbouring samples. Empty \<open>xp\<close> or lists of different lengths are a
  ValueError. The search for the segment is the linear one of the reference
  implementation.
\<close>

fun interp_search :: "npfloat \<Rightarrow> npfloat list \<Rightarrow> npfloat list \<Rightarrow> npfloat" where
  "interp_search x (x0 # x1 # xs) (f0 # f1 # fs) =
     (if fge x x1 then interp_search x (x1 # xs) (f1 # fs)
      else if feq x0 x then f0
      else fadd (fmul (fdiv (fsub f1 f0) (fsub x1 x0)) (fsub x x0)) f0)"
| "interp_search x [x0] (f0 # fs) = f0"
| "interp_search x _ _ = NaN"

definition np_interp :: "npfloat \<Rightarrow> npfloat list \<Rightarrow> npfloat list \<Rightarrow> error + npfloat" where
  "np_interp x xp fp =
     (if xp = [] \<or> length fp \<noteq> length xp then Inl ValueError
      else if isnan x then Inr x
      else if fgt x (last xp) then Inr (last fp)
      else if fgt (hd xp) x then Inr (hd fp)
      else Inr (interp_search x xp fp))"

definition equilibrio ::
  "('r \<Rightarrow> npfloat option) \<Rightarrow> 'r config \<Rightarrow> npfloat \<Rightarrow> ('r, npfloat) io" where
  "equilibrio flt cfg freq =
     thn (source_write (SOUR_FREQ 2 freq))
    (thn (source_write (SOUR_VOLT 1 (vdc_nominal cfg)))
    (thn (espera 5)
    (thn (sw_write_raw dc)
    (thn (espera (real_of_int (wait_time cfg) / 2))
    (thn (source_write (SOUR_VOLT 2 (fmul (Fin 0.999) (vac_nominal cfg))))
    (thn (espera (real_of_int (wait_time cfg) / 2))
    (bnd ler_dut (\<lambda>r0.
     thn (print_dut flt [r0])
    (thn (sw_write_raw ac)
    (thn (espera (real_of_int (wait_time cfg)))
    (bnd ler_dut (\<lambda>r1.
     thn (print_dut flt [r0, r1])
    (thn (sw_write_raw dc)
    (thn (espera 2)
    (thn (source_write (SOUR_VOLT 2 (fmul (Fin 1.001) (vac_nominal cfg))))
    (thn (espera 2)
    (thn (sw_write_raw ac)
    (thn (espera (real_of_int (wait_time cfg)))
    (bnd ler_dut (\<lambda>r2.
     thn (print_dut flt [r0, r1, r2])
    (thn (sw_write_raw dc)
     (lift
       (let yp = [fmul (Fin 0.999) (vac_nominal cfg), fmul (Fin 1.001) (vac_nominal cfg)]
        in ebind (to_float flt r1) (\<lambda>xp0.
           ebind (to_float flt r2) (\<lambda>xp1.
           ebind (to_float flt r0) (\<lambda>xi.
           np_interp xi [xp0, xp1] yp))))))))))))))))))))))))))"

section \<open>The record file\<close>

definition criar_registro :: "('r, unit) io" where
  "criar_registro = (\<lambda>w. (Inr (), w\<lparr>registro := registro w @ [Cabecalho]\<rparr>))"

definition registro_frequencia :: "'r \<Rightarrow> n_array \<Rightarrow> npfloat \<Rightarrow> ('r, unit) io" where
  "registro_frequencia frequencia n_arr vac_equilibrio =
     (\<lambda>w. (Inr (), w\<lparr>registro := registro w @ [RegFrequencia frequencia n_arr vac_equilibrio]\<rparr>))"

definition registro_linha :: "acdc \<Rightarrow> npfloat \<Rightarrow> ('r, unit) io" where
  "registro_linha res vdc_atual =
     (\<lambda>w. (Inr (), w\<lparr>registro := registro w @ [RegLinha res vdc_atual]\<rparr>))"

definition registro_media :: "npfloat list \<Rightarrow> ('r, unit) io" where
  "registro_media diferenca =
     (\<lambda>w. (Inr (), w\<lparr>registro := registro w @ [RegMedia (np_mean diferenca) (np_std_ddof1 diferenca)]\<rparr>))"

section \<open>The sampling loop of one frequency\<close>

text \<open>
  The variables of \<open>main\<close> that the \<^verbatim>\<open>while\<close> loop reads and writes: the count
  \<open>i\<close> of accepted repetitions, the applied DC voltage, the flag of the first
  repetition, the readings of the last cycle (unbound before the first one) and the two
  lists of accepted values.
\<close>

record 'r lstate =
  l_i :: int
  l_vdc_atual :: npfloat
  l_first_measure :: bool
  l_readings :: "'r readings option"
  l_diff_acdc :: "npfloat list"
  l_Delta :: "npfloat list"

text \<open>The variables as \<open>main\<close> sets them before the loop of a frequency.\<close>

definition loop_init :: "'r config \<Rightarrow> 'r lstate" where
  "loop_init cfg = \<lparr>l_i = 0, l_vdc_atual = vdc_nominal cfg, l_first_measure = True,
                    l_readings = None, l_diff_acdc = [], l_Delta = []\<rparr>"

text \<open>The choice of \<open>ciclo_ac\<close> at the head of the loop body.\<close>

definition ciclo_ac_of :: "'r lstate \<Rightarrow> ('r, 'r list \<times> 'r lstate) io" where
  "ciclo_ac_of s =
     (if l_first_measure s then ret ([], s\<lparr>l_first_measure := False\<rparr>)
      else case l_readings s of
             None \<Rightarrow> raise UnboundLocalError
           | Some rd \<Rightarrow>
               bnd (lift (idx (std_readings rd) 4)) (\<lambda>a.
               bnd (lift (idx (dut_readings rd) 4)) (\<lambda>b.
               ret ([a, b], s))))"

text \<open>The body of the \<^verbatim>\<open>while\<close> loop: one repetition.\<close>

definition repeticao ::
  "('r \<Rightarrow> npfloat option) \<Rightarrow> 'r config \<Rightarrow> npfloat \<Rightarrow> npfloat list \<Rightarrow> npfloat \<Rightarrow> 'r lstate
     \<Rightarrow> ('r, 'r lstate) io" where
  "repeticao flt cfg freq n_value vac_atual s =
     bnd (ciclo_ac_of s) (\<lambda>c.
     bnd (measure_cycle flt cfg freq (l_vdc_atual (snd c)) vac_atual (fst c)) (\<lambda>rd.
     bnd (lift (acdc_calc flt rd n_value (l_vdc_atual (snd c)))) (\<lambda>res.
     bnd (if fgt (fabs (Delta res)) (Fin 50) then ret (snd c)
          else thn (registro_linha res (l_vdc_atual (snd c)))
                 (ret ((snd c)\<lparr>l_diff_acdc := l_diff_acdc (snd c) @ [dif res],
                                l_Delta := l_Delta (snd c) @ [Delta res],
                                l_i := l_i (snd c) + 1\<rparr>))) (\<lambda>s2.
     (if fgt (adj_dc res) (fmul (Fin 1.1) (vdc_nominal cfg))
      then raise (NameError ''Tensao DC ajustada perigosamente alta!'')
      else ret (s2\<lparr>l_readings := Some rd, l_vdc_atual := adj_dc res\<rparr>))))))"

subsection \<open>Every repetition uses up replies of the voltmeter\<close>

text \<open>
  The \<^verbatim>\<open>while\<close> loop has no bound of its own: a repetition that is discarded
  does not advance the count. In the model it ends because every repetition that returns
  has taken replies from \<open>feed\<close>, and a query with none left times out. \<open>keeps m\<close>:
  \<open>m\<close> does not add replies; \<open>eats m\<close>: when \<open>m\<close> returns, it has taken one at least.
\<close>

definition keeps :: "('r, 'a) io \<Rightarrow> bool" where
  "keeps m = (\<forall>w. length (feed (snd (m w))) \<le> length (feed w))"

definition eats :: "('r, 'a) io \<Rightarrow> bool" where
  "eats m = (\<forall>w x w'. m w = (Inr x, w') \<longrightarrow> length (feed w') < length (feed w))"

lemma keeps_ret [intro!]: "keeps (ret x)"
  by (simp add: keeps_def ret_def)

lemma keeps_raise [intro!]: "keeps (raise e)"
  by (simp add: keeps_def raise_def)

lemma keeps_lift [intro!]: "keeps (lift m)"
  by (cases m) (simp_all add: lift_def keeps_raise keeps_ret)

lemma keeps_emit [intro!]: "keeps (emit es)"
  by (simp add: keeps_def emit_def)

lemma keeps_bnd [intro!]:
  assumes "keeps m" and "\<And>x. keeps (f x)"
  shows "keeps (bnd m f)"
  unfolding keeps_def
proof
  fix w
  obtain r w1 where mw: "m w = (r, w1)" by (cases "m w")
  have 1: "length (feed w1) \<le> length (feed w)"
    using assms(1) mw by (auto simp: keeps_def dest: spec [of _ w])
  show "length (feed (snd (bnd m f w))) \<le> length (feed w)"
  proof (cases r)
    case (Inl e)
    then show ?thesis using mw 1 by (simp add: bnd_def)
  next
    case (Inr x)
    have "length (feed (snd (f x w1))) \<le> length (feed w1)"
      using assms(2) [of x] by (simp add: keeps_def)
    then show ?thesis using mw 1 Inr by (simp add: bnd_def)
  qed
qed

lemma keeps_thn [intro!]: "keeps m \<Longrightarrow> keeps n \<Longrightarrow> keeps (thn m n)"
  by (simp add: thn_def keeps_bnd)

lemma keeps_if [intro!]: "keeps m \<Longrightarrow> keeps n \<Longrightarrow> keeps (if b then m else n)"
  by simp

lemma eats_bnd_left:
  assumes "eats m" and "\<And>x. keeps (f x)"
  shows "eats (bnd m f)"
  unfolding eats_def
proof (intro allI impI)
  fix w y w'
  assume run: "bnd m f w = (Inr y, w')"
  obtain r w1 where mw: "m w = (r, w1)" by (cases "m w")
  with run obtain x where r: "r = Inr x" and fx: "f x w1 = (Inr y, w')"
    by (cases r) (auto simp: bnd_def)
  have "length (feed w1) < length (feed w)"
    using assms(1) mw r by (auto simp: eats_def)
  moreover have "length (feed (snd (f x w1))) \<le> length (feed w1)"
    using assms(2) [of x] by (simp add: keeps_def)
  ultimately show "length (feed w') < length (feed w)"
    using fx by simp
qed

lemma eats_bnd_right:
  assumes "keeps m" and "\<And>x. eats (f x)"
  shows "eats (bnd m f)"
  unfolding eats_def
proof (intro allI impI)
  fix w y w'
  assume run: "bnd m f w = (Inr y, w')"
  obtain r w1 where mw: "m w = (r, w1)" by (cases "m w")
  with run obtain x where r: "r = Inr x" and fx: "f x w1 = (Inr y, w')"
    by (cases r) (auto simp: bnd_def)
  have "length (feed w1) \<le> length (feed w)"
    using assms(1) mw by (auto simp: keeps_def dest: spec [of _ w])
  moreover have "length (feed w') < length (feed w1)"
    using assms(2) [of x] fx by (auto simp: eats_def)
  ultimately show "length (feed w') < length (feed w)"
    by simp
qed

lemma eats_thn_right: "keeps m \<Longrightarrow> eats n \<Longrightarrow> eats (thn m n)"
  by (simp add: thn_def eats_bnd_right)

lemma keeps_dvm_query [intro!]: "keeps dvm_query"
  by (simp add: keeps_def dvm_query_def split: list.split)

lemma eats_dvm_query: "eats dvm_query"
  by (simp add: eats_def dvm_query_def split: list.splits)

lemma keeps_ler_std [intro!]: "keeps ler_std"
  by (auto simp: ler_std_def dvm_write_def)

lemma keeps_ler_dut [intro!]: "keeps ler_dut"
  by (auto simp: ler_dut_def dvm_write_def)

lemma eats_ler_std: "eats ler_std"
  by (auto simp: ler_std_def dvm_write_def intro!: eats_thn_right eats_dvm_query)

lemma keeps_print_std [intro!]: "keeps (print_std flt rs)"
  by (auto simp: print_std_def)

lemma keeps_print_dut [intro!]: "keeps (print_dut flt rs)"
  by (auto simp: print_dut_def)

lemma keeps_ler_par [intro!]: "keeps (ler_par flt p)"
  by (auto simp: ler_par_def)

lemma eats_ler_par: "eats (ler_par flt p)"
  unfolding ler_par_def by (rule eats_bnd_left [OF eats_ler_std]) auto

lemma keeps_fase [intro!]: "keeps (fase flt cfg c p)"
  by (auto simp: fase_def sw_write_raw_def espera_def)

lemma eats_fase: "eats (fase flt cfg c p)"
  by (auto simp: fase_def sw_write_raw_def espera_def intro!: eats_thn_right eats_ler_par)

lemma keeps_measure [intro!]: "keeps (measure_cycle flt cfg freq v1 v2 c)"
  by (auto simp: measure_cycle_def source_write_def espera_def)

lemma eats_measure: "eats (measure_cycle flt cfg freq v1 v2 c)"
  unfolding measure_cycle_def source_write_def espera_def
  apply (intro eats_thn_right keeps_emit)
  apply (rule eats_bnd_right)
   apply auto[1]
  apply (rule eats_bnd_left [OF eats_fase])
  apply auto
  done

lemma keeps_registro_linha [intro!]: "keeps (registro_linha res v)"
  by (simp add: keeps_def registro_linha_def)

lemma keeps_ciclo_ac_of [intro!]: "keeps (ciclo_ac_of s)"
  by (auto simp: ciclo_ac_of_def split: option.split)

lemma eats_repeticao: "eats (repeticao flt cfg freq n_value vac s)"
  unfolding repeticao_def
  apply (rule eats_bnd_right)
   apply auto[1]
  apply (rule eats_bnd_left [OF eats_measure])
  apply auto
  done

lemma repeticao_feed:
  "repeticao flt cfg freq n_value vac_atual s w = (Inr s', w') \<Longrightarrow>
     length (feed w') < length (feed w)"
  using eats_repeticao [of flt cfg freq n_value vac_atual s] by (auto simp: eats_def)

text \<open>The \<^verbatim>\<open>while (i < repeticoes)\<close> loop.\<close>

function sampling ::
  "('r \<Rightarrow> npfloat option) \<Rightarrow> 'r config \<Rightarrow> npfloat \<Rightarrow> npfloat list \<Rightarrow> npfloat \<Rightarrow> 'r lstate
     \<Rightarrow> ('r, 'r lstate) io" where
  "sampling flt cfg freq n_value vac_atual s w =
     (if l_i s < repeticoes cfg
      then case repeticao flt cfg freq n_value vac_atual s w of
             (Inl e, w') \<Rightarrow> (Inl e, w')
           | (Inr s', w') \<Rightarrow> sampling flt cfg freq n_value vac_atual s' w'
      else (Inr s, w))"
  by pat_completeness auto

termination
proof (relation "measure (\<lambda>(flt, cfg, freq, n_value, vac_atual, s, w). length (feed w))")
  fix flt :: "'r \<Rightarrow> npfloat option" and cfg :: "'r config" and freq n_value vac_atual
    and s b :: "'r lstate" and w y :: "'r world" and x
  assume "l_i s < repeticoes cfg" "(x, y) = repeticao flt cfg freq n_value vac_atual s w" "x = Inr b"
  then have "length (feed y) < length (feed w)"
    using repeticao_feed [of flt cfg freq n_value vac_atual s w b y] by simp
  then show "((flt, cfg, freq, n_value, vac_atual, b, y), (flt, cfg, freq, n_value, vac_atual, s, w))
      \<in> measure (\<lambda>(flt, cfg, freq, n_value, vac_atual, s, w). length (feed w))"
    by simp
qed simp


declare sampling.simps [simp del]

subsection \<open>The results that the loop computes\<close>

text \<open>The result that \<open>acdc_calc\<close> gives in the pass that starts in state \<open>s\<close>.\<close>

definition resultado ::
  "('r \<Rightarrow> npfloat option) \<Rightarrow> 'r config \<Rightarrow> npfloat \<Rightarrow> npfloat list \<Rightarrow> npfloat \<Rightarrow> 'r lstate
     \<Rightarrow> 'r world \<Rightarrow> acdc option" where
  "resultado flt cfg freq n_value vac_atual s w =
     (case ciclo_ac_of s w of
        (Inl e, w0) \<Rightarrow> None
      | (Inr c, w0) \<Rightarrow>
          (case measure_cycle flt cfg freq (l_vdc_atual (snd c)) vac_atual (fst c) w0 of
             (Inl e, w1) \<Rightarrow> None
           | (Inr rd, w1) \<Rightarrow>
               (case acdc_calc flt rd n_value (l_vdc_atual (snd c)) of
                  Inl e \<Rightarrow> None
                | Inr res \<Rightarrow> Some res)))"

text \<open>A repetition is accepted when it is not discarded.\<close>

definition accepted :: "acdc \<Rightarrow> bool" where
  "accepted res = (\<not> fgt (fabs (Delta res)) (Fin 50))"

text \<open>The results of all the passes of the loop that starts in state \<open>s\<close>, in order.\<close>

function results_of ::
  "('r \<Rightarrow> npfloat option) \<Rightarrow> 'r config \<Rightarrow> npfloat \<Rightarrow> npfloat list \<Rightarrow> npfloat \<Rightarrow> 'r lstate
     \<Rightarrow> 'r world \<Rightarrow> acdc list" where
  "results_of flt cfg freq n_value vac_atual s w =
     (if l_i s < repeticoes cfg
      then case repeticao flt cfg freq n_value vac_atual s w of
             (Inl e, w') \<Rightarrow> []
           | (Inr s', w') \<Rightarrow>
               (case resultado flt cfg freq n_value vac_atual s w of
                  None \<Rightarrow> [] | Some res \<Rightarrow> [res])
               @ results_of flt cfg freq n_value vac_atual s' w'
      else [])"
  by pat_completeness auto
termination
proof (relation "measure (\<lambda>(flt, cfg, freq, n_value, vac_atual, s, w). length (feed w))")
  fix flt :: "'r \<Rightarrow> npfloat option" and cfg :: "'r config" and freq n_value vac_atual
    and s b :: "'r lstate" and w y :: "'r world" and x
  assume "l_i s < repeticoes cfg" "(x, y) = repeticao flt cfg freq n_value vac_atual s w" "x = Inr b"
  then have "length (feed y) < length (feed w)"
    using repeticao_feed [of flt cfg freq n_value vac_atual s w b y] by simp
  then show "((flt, cfg, freq, n_value, vac_atual, b, y), (flt, cfg, freq, n_value, vac_atual, s, w))
      \<in> measure (\<lambda>(flt, cfg, freq, n_value, vac_atual, s, w). length (feed w))"
    by simp
qed simp

declare results_of.simps [simp del]

section \<open>The run\<close>

definition instrument_init :: "('r, unit) io" where
  "instrument_init =
     thn (source_write IDN)
    (thn (dvm_write '':SENS:VOLT:NPLC 18'')
    (thn (dvm_write '':SENS:VOLT:DIG 8'')
     (sw_write_raw reset)))"

definition meas_init :: "'r config \<Rightarrow> ('r, unit) io" where
  "meas_init cfg =
     thn (source_write RST)
    (thn (source_write CLS)
    (thn (source_write (OUTP_LOAD 1 (load cfg)))
    (thn (source_write (OUTP_LOAD 2 (load cfg)))
    (thn (source_write (SOUR_FUNC_SIN 1))
    (thn (source_write (SOUR_FUNC_SIN 2))
    (thn (source_write (SOUR_VOLT 1 (vdc_nominal cfg)))
    (thn (source_write (SOUR_VOLT 2 (vac_nominal cfg)))
    (thn (source_write (SOUR_FREQ 1 (Fin 100000)))
    (thn (source_write (SOUR_FREQ 2 (Fin 1000000)))
    (thn (espera 2)
    (thn (source_write (OUTP 1 True))
    (thn (source_write (OUTP 2 True))
    (thn (espera 10)
    (thn (sw_write_raw ac)
     (espera 10)))))))))))))))"

definition aquecimento :: "'r config \<Rightarrow> int \<Rightarrow> ('r, unit) io" where
  "aquecimento cfg tempo =
     thn (source_write (SOUR_VOLT 1 (vdc_nominal cfg)))
    (thn (source_write (SOUR_FREQ 1 (Fin 100000)))
    (thn (sw_write_raw dc)
     (espera (real_of_int tempo))))"

text \<open>
  The body of the \<^verbatim>\<open>for value in freq_array\<close> loop: one frequency point. The
  readings of the previous point are never read (\<open>first_measure\<close> is set again), so the
  loop state \<open>loop_init\<close> starts without them.
\<close>

definition ponto :: "('r \<Rightarrow> npfloat option) \<Rightarrow> 'r config \<Rightarrow> 'r \<Rightarrow> ('r, unit) io" where
  "ponto flt cfg value =
     bnd (lift (to_float flt value)) (\<lambda>fv.
     bnd (n_measure flt cfg (fmul fv (Fin 1000000)) 4) (\<lambda>n_arr.
     bnd (equilibrio flt cfg (fmul fv (Fin 1000000))) (\<lambda>vac_atual.
     thn (registro_frequencia value n_arr vac_atual)
      (if fgt vac_atual (fmul (Fin 1.1) (vac_nominal cfg))
       then raise (NameError ''Tensao AC ajustada perigosamente alta!'')
       else bnd (sampling flt cfg (fmul fv (Fin 1000000)) (n_results n_arr) vac_atual
                   (loop_init cfg)) (\<lambda>s.
            registro_media (l_diff_acdc s))))))"

fun for_freq :: "('r \<Rightarrow> npfloat option) \<Rightarrow> 'r config \<Rightarrow> 'r list \<Rightarrow> ('r, unit) io" where
  "for_freq flt cfg [] = ret ()"
| "for_freq flt cfg (value # values) = thn (ponto flt cfg value) (for_freq flt cfg values)"

text \<open>
  \<open>main\<close>: the body of the \<^verbatim>\<open>try\<close>, and the bare \<^verbatim>\<open>except\<close> that puts the
  instruments in stand-by whatever was raised.
\<close>

definition main_try :: "('r \<Rightarrow> npfloat option) \<Rightarrow> 'r config \<Rightarrow> ('r, unit) io" where
  "main_try flt cfg =
     thn instrument_init
    (thn (meas_init cfg)
    (thn criar_registro
    (thn (aquecimento cfg (heating_time cfg))
    (thn (for_freq flt cfg (freq_array cfg))
     stop_instruments))))"

definition main :: "('r \<Rightarrow> npfloat option) \<Rightarrow> 'r config \<Rightarrow> ('r, unit) io" where
  "main flt cfg = (\<lambda>w. case main_try flt cfg w of
       (Inl e, w') \<Rightarrow> stop_instruments w'
     | (Inr u, w') \<Rightarrow> (Inr u, w'))"

section \<open>Command sequences\<close>

text \<open>
  The commands that the operations issue, named so that a run can be stated: a reading of
  the standard, a reading of the device, one phase of a cycle, the configuration that
  opens a cycle.
\<close>

definition ev_ler_std :: "event list" where
  "ev_ler_std = [Dvm ''SENS:CHAN 2'', Dvm '':SENS:VOLT:CHAN2:RANG 0.01'', Dvm ''INIT:CONT OFF'', Read]"

definition ev_ler_dut :: "event list" where
  "ev_ler_dut = [Dvm ''SENS:CHAN 1'', Dvm '':SENS:VOLT:CHAN1:RANG 0.01'', Dvm ''INIT:CONT OFF'', Read]"

definition ev_fase :: "'r config \<Rightarrow> sw_cmd \<Rightarrow> event list" where
  "ev_fase cfg c =
     [Switch c, Sleep (nat \<lfloor>real_of_int (wait_time cfg) * 10\<rfloor>)] @ ev_ler_std @ ev_ler_dut"

definition ev_measure_config :: "npfloat \<Rightarrow> npfloat \<Rightarrow> npfloat \<Rightarrow> event list" where
  "ev_measure_config freq vdc_atual vac_atual =
     [Source (SOUR_VOLT 2 vac_atual), Source (SOUR_FREQ 2 freq),
      Source (SOUR_VOLT 1 vdc_atual), Source (SOUR_FREQ 1 (Fin 100000)), Sleep 20]"

text \<open>
  For \<open>n_measure\<close>: the replies of the voltmeter come as standard, device, standard,
  device, ...; \<open>interleave xs ys\<close> is that order for the standard readings \<open>xs\<close> and
  the device readings \<open>ys\<close>. \<open>ev_n_baseline\<close> are the commands of the baseline
  reading, \<open>ev_n_iter cfg i\<close> those of the pass \<open>i\<close> of the loop.
\<close>

definition interleave :: "'a list \<Rightarrow> 'a list \<Rightarrow> 'a list" where
  "interleave xs ys = concat (map2 (\<lambda>x y. [x, y]) xs ys)"

definition n_weight :: "int \<Rightarrow> int" where
  "n_weight i = (if i mod 2 = 0 then - 100 else 100)"

definition ev_n_iter :: "'r config \<Rightarrow> int \<Rightarrow> event list" where
  "ev_n_iter cfg i =
     [Switch ac, Sleep 20,
      Source (SOUR_VOLT 1 (if i mod 2 = 0 then fmul (Fin 0.99) (vdc_nominal cfg)
                            else fmul (Fin 1.01) (vdc_nominal cfg))),
      Sleep 20, Switch dc, Sleep (nat \<lfloor>real_of_int (wait_time cfg) * 10\<rfloor>)]
     @ ev_ler_std @ ev_ler_dut"

definition ev_n_baseline :: "'r config \<Rightarrow> npfloat \<Rightarrow> event list" where
  "ev_n_baseline cfg freq =
     [Source (SOUR_VOLT 2 (vac_nominal cfg)), Source (SOUR_FREQ 2 freq),
      Source (SOUR_VOLT 1 (vdc_nominal cfg)), Sleep 20, Switch dc,
      Sleep (nat \<lfloor>real_of_int (wait_time cfg) * 10\<rfloor>)]
     @ ev_ler_std @ ev_ler_dut"

text \<open>
  The sample mean and the unbiased sample standard deviation (denominator \<open>N - 1\<close>) of
  a list of real numbers, as the specification words them.
\<close>

definition sample_mean :: "real list \<Rightarrow> real" where
  "sample_mean ds = sum_list ds / real (length ds)"

definition sample_std :: "real list \<Rightarrow> real" where
  "sample_std ds = sqrt ((\<Sum>d\<leftarrow>ds. (d - sample_mean ds)\<^sup>2) / (real (length ds) - 1))"

text \<open>For \<open>equilibrio\<close>: the commands of the three settle-and-read steps.\<close>

definition ev_equilibrio :: "'r config \<Rightarrow> npfloat \<Rightarrow> event list" where
  "ev_equilibrio cfg freq =
     [Source (SOUR_FREQ 2 freq), Source (SOUR_VOLT 1 (vdc_nominal cfg)), Sleep 50, Switch dc,
      Sleep (nat \<lfloor>real_of_int (wait_time cfg) / 2 * 10\<rfloor>),
      Source (SOUR_VOLT 2 (fmul (Fin 0.999) (vac_nominal cfg))),
      Sleep (nat \<lfloor>real_of_int (wait_time cfg) / 2 * 10\<rfloor>)]
     @ ev_ler_dut
     @ [Switch ac, Sleep (nat \<lfloor>real_of_int (wait_time cfg) * 10\<rfloor>)]
     @ ev_ler_dut
     @ [Switch dc, Sleep 20,
        Source (SOUR_VOLT 2 (fmul (Fin 1.001) (vac_nominal cfg))), Sleep 20,
        Switch ac, Sleep (nat \<lfloor>real_of_int (wait_time cfg) * 10\<rfloor>)]
     @ ev_ler_dut
     @ [Switch dc]"

text \<open>The point at \<open>x\<close> of the line through \<open>(x0, y0)\<close> and \<open>(x1, y1)\<close>.\<close>

definition line_through :: "real \<Rightarrow> real \<Rightarrow> real \<Rightarrow> real \<Rightarrow> real \<Rightarrow> real" where
  "line_through x0 y0 x1 y1 x = y0 + (x - x0) * (y1 - y0) / (x1 - x0)"

text \<open>A configuration and replies to run the operations on.\<close>

definition cfg_ex :: "npfloat config" where
  "cfg_ex = \<lparr>wait_time = 1, heating_time = 0, repeticoes = 1, vac_nominal = Fin 10,
             vdc_nominal = Fin 10, freq_array = [Fin 1], load = 50\<rparr>"

definition cfg_ex2 :: "npfloat config" where
  "cfg_ex2 = cfg_ex\<lparr>repeticoes := 2\<rparr>"

text \<open>
  The loop state after a pass that read the cycle \<open>rd\<close> and computed \<open>res\<close>, the row the
  pass writes, and the commands of one cycle.
\<close>

definition after_pass :: "'r lstate \<Rightarrow> 'r readings \<Rightarrow> acdc \<Rightarrow> 'r lstate" where
  "after_pass s rd res =
     (if accepted res
      then s\<lparr>l_diff_acdc := l_diff_acdc s @ [dif res], l_Delta := l_Delta s @ [Delta res],
             l_i := l_i s + 1\<rparr>
      else s)\<lparr>l_first_measure := False, l_readings := Some rd, l_vdc_atual := adj_dc res\<rparr>"

definition linha :: "acdc \<Rightarrow> npfloat \<Rightarrow> 'r row list" where
  "linha res v = (if accepted res then [RegLinha res v] else [])"

definition ev_cycle :: "'r config \<Rightarrow> npfloat \<Rightarrow> npfloat \<Rightarrow> npfloat \<Rightarrow> bool \<Rightarrow> event list" where
  "ev_cycle cfg freq vdc vac fresh =
     ev_measure_config freq vdc vac @ (if fresh then ev_fase cfg ac else [])
     @ ev_fase cfg dc @ ev_fase cfg ac @ ev_fase cfg dc @ ev_fase cfg ac"

text \<open>
  For the run: \<open>startup\<close> is what \<open>main\<close> does before the loop over the frequencies,
  \<open>ev_startup\<close> its commands, \<open>ev_stop\<close> the commands of \<open>stop_instruments\<close>, and
  \<open>first_passes \<dots> k\<close> the first \<open>k\<close> passes of the \<^verbatim>\<open>while\<close> loop of a frequency (fewer
  when the loop ends before).
\<close>

definition startup :: "'r config \<Rightarrow> ('r, unit) io" where
  "startup cfg =
     thn instrument_init
    (thn (meas_init cfg)
    (thn criar_registro
     (aquecimento cfg (heating_time cfg))))"

definition ev_stop :: "event list" where
  "ev_stop = [Switch reset, Sleep 10, Source (OUTP 1 False), Source (OUTP 2 False)]"

fun first_passes ::
  "('r \<Rightarrow> npfloat option) \<Rightarrow> 'r config \<Rightarrow> npfloat \<Rightarrow> npfloat list \<Rightarrow> npfloat \<Rightarrow> nat
     \<Rightarrow> 'r lstate \<Rightarrow> ('r, 'r lstate) io" where
  "first_passes flt cfg freq n_value vac_atual 0 s = ret s"
| "first_passes flt cfg freq n_value vac_atual (Suc k) s =
     (if l_i s < repeticoes cfg
      then bnd (repeticao flt cfg freq n_value vac_atual s)
             (first_passes flt cfg freq n_value vac_atual k)
      else ret s)"

definition ev_startup :: "'r config \<Rightarrow> event list" where
  "ev_startup cfg =
     [Source IDN, Dvm '':SENS:VOLT:NPLC 18'', Dvm '':SENS:VOLT:DIG 8'', Switch reset,
      Source RST, Source CLS, Source (OUTP_LOAD 1 (load cfg)), Source (OUTP_LOAD 2 (load cfg)),
      Source (SOUR_FUNC_SIN 1), Source (SOUR_FUNC_SIN 2),
      Source (SOUR_VOLT 1 (vdc_nominal cfg)), Source (SOUR_VOLT 2 (vac_nominal cfg)),
      Source (SOUR_FREQ 1 (Fin 100000)), Source (SOUR_FREQ 2 (Fin 1000000)), Sleep 20,
      Source (OUTP 1 True), Source (OUTP 2 True), Sleep 100, Switch ac, Sleep 100,
      Source (SOUR_VOLT 1 (vdc_nominal cfg)), Source (SOUR_FREQ 1 (Fin 100000)), Switch dc,
      Sleep (nat \<lfloor>real_of_int (heating_time cfg) * 10\<rfloor>)]"

definition cfg_ex3 :: "npfloat config" where
  "cfg_ex3 = cfg_ex\<lparr>freq_array := [Fin 1, Fin 2]\<rparr>"

definition cfg_neg :: "npfloat config" where
  "cfg_neg = cfg_ex\<lparr>vac_nominal := Fin (- 10), freq_array := [Fin 1, Fin 2]\<rparr>"

section \<open>Properties of the difference calculation\<close>

lemma floats_map:
  "list_all2 (\<lambda>a v. flt a = Some (f v)) rs vs \<Longrightarrow> floats flt rs = Inr (map f vs)"
  by (induction rs vs rule: list_all2_induct) (simp_all add: ebind_def to_float_def)

text \<open>
  Claim C1. For a cycle of five standard readings \<open>x\<close> and five device readings
  \<open>y\<close> that convert to finite numbers, coefficients \<open>n_X = N[0]\<close> and
  \<open>n_Y = N[2]\<close> and an applied DC voltage \<open>v\<close>, with \<open>n_X\<close>, \<open>n_Y\<close>,
  \<open>mean(x[1], x[3])\<close> and \<open>mean(y[1], y[3])\<close> nonzero, \<open>acdc_calc\<close> returns
  \<open>dif = 1e6 * ((X/n_X - Y/n_Y) / (1 + Y/n_Y))\<close>, \<open>Delta = 1e6 * (Yac - Ydc)\<close> and
  \<open>adj_dc = v * (1 + (Yac - Ydc) / (n_Y * Ydc))\<close>, where \<open>Xac\<close>, \<open>Yac\<close> are the
  means of the readings 0, 2, 4, \<open>Xdc\<close>, \<open>Ydc\<close> those of the readings 1, 3,
  \<open>X = Xac/Xdc - 1\<close> and \<open>Y = Yac/Ydc - 1\<close>. The last division of \<open>dif\<close> is
  numpy's: the claim does not exclude \<open>1 + Y/n_Y = 0\<close>.
\<close>

theorem acdc_calc_formulas:
  fixes x0 x1 x2 x3 x4 y0 y1 y2 y3 y4 n_X n_Y v :: real
  defines "Xac \<equiv> (x0 + x2 + x4) / 3" and "Xdc \<equiv> (x1 + x3) / 2"
      and "Yac \<equiv> (y0 + y2 + y4) / 3" and "Ydc \<equiv> (y1 + y3) / 2"
  defines "X \<equiv> Xac / Xdc - 1" and "Y \<equiv> Yac / Ydc - 1"
  assumes std: "list_all2 (\<lambda>a v. flt a = Some (Fin v)) (std_readings rd) [x0, x1, x2, x3, x4]"
      and dut: "list_all2 (\<lambda>a v. flt a = Some (Fin v)) (dut_readings rd) [y0, y1, y2, y3, y4]"
      and N: "idx N 0 = Inr (Fin n_X)" "idx N 2 = Inr (Fin n_Y)"
      and nz: "n_X \<noteq> 0" "n_Y \<noteq> 0" "Xdc \<noteq> 0" "Ydc \<noteq> 0"
  shows "acdc_calc flt rd N (Fin v) =
           Inr \<lparr>res_std = map Fin [x0, x1, x2, x3, x4],
                res_dut = map Fin [y0, y1, y2, y3, y4],
                dif = fmul (Fin 1000000) (fdiv (Fin (X / n_X - Y / n_Y)) (Fin (1 + Y / n_Y))),
                Delta = Fin (1000000 * (Yac - Ydc)),
                adj_dc = Fin (v * (1 + (Yac - Ydc) / (n_Y * Ydc)))\<rparr>"
proof -
  have px: "floats flt (std_readings rd) = Inr (map Fin [x0, x1, x2, x3, x4])"
    using std by (rule floats_map)
  have py: "floats flt (dut_readings rd) = Inr (map Fin [y0, y1, y2, y3, y4])"
    using dut by (rule floats_map)
  have ix: "idx (map Fin [x0, x1, x2, x3, x4]) 0 = Inr (Fin x0)"
    "idx (map Fin [x0, x1, x2, x3, x4]) 1 = Inr (Fin x1)"
    "idx (map Fin [x0, x1, x2, x3, x4]) 2 = Inr (Fin x2)"
    "idx (map Fin [x0, x1, x2, x3, x4]) 3 = Inr (Fin x3)"
    "idx (map Fin [x0, x1, x2, x3, x4]) 4 = Inr (Fin x4)"
    by (simp_all add: idx_def)
  have iy: "idx (map Fin [y0, y1, y2, y3, y4]) 0 = Inr (Fin y0)"
    "idx (map Fin [y0, y1, y2, y3, y4]) 1 = Inr (Fin y1)"
    "idx (map Fin [y0, y1, y2, y3, y4]) 2 = Inr (Fin y2)"
    "idx (map Fin [y0, y1, y2, y3, y4]) 3 = Inr (Fin y3)"
    "idx (map Fin [y0, y1, y2, y3, y4]) 4 = Inr (Fin y4)"
    by (simp_all add: idx_def)
  have m3: "np_mean [Fin a, Fin b, Fin c] = Fin ((a + b + c) / 3)" for a b c
    by (simp add: np_mean_def np_sum_def)
  have m2: "np_mean [Fin a, Fin b] = Fin ((a + b) / 2)" for a b
    by (simp add: np_mean_def np_sum_def)
  have unf: "acdc_calc flt rd N (Fin v) =
      Inr \<lparr>res_std = map Fin [x0, x1, x2, x3, x4],
           res_dut = map Fin [y0, y1, y2, y3, y4],
           dif = fmul (Fin 1000000)
                   (fdiv (fsub (fdiv (fsub (fdiv (Fin Xac) (Fin Xdc)) (Fin 1)) (Fin n_X))
                               (fdiv (fsub (fdiv (Fin Yac) (Fin Ydc)) (Fin 1)) (Fin n_Y)))
                         (fadd (Fin 1) (fdiv (fsub (fdiv (Fin Yac) (Fin Ydc)) (Fin 1)) (Fin n_Y)))),
           Delta = fmul (Fin 1000000) (fsub (Fin Yac) (Fin Ydc)),
           adj_dc = fmul (Fin v) (fadd (Fin 1)
                      (fdiv (fsub (Fin Yac) (Fin Ydc)) (fmul (Fin n_Y) (Fin Ydc))))\<rparr>"
    unfolding acdc_calc_def N px py ix iy ebind_def m3 m2 Let_def sum.case
      Xac_def Xdc_def Yac_def Ydc_def ..
  show ?thesis
    unfolding unf using nz
    by (simp add: fsub_def X_def Y_def)
qed

theorem acdc_calc_formulas_witness:
  "acdc_calc Some
     \<lparr>std_readings = [Fin 3, Fin 2, Fin 3, Fin 2, Fin 3],
      dut_readings = [Fin 5, Fin 4, Fin 5, Fin 4, Fin 5]\<rparr>
     [Fin 1, NaN, Fin 2, NaN] (Fin 10) =
   Inr \<lparr>res_std = [Fin 3, Fin 2, Fin 3, Fin 2, Fin 3],
        res_dut = [Fin 5, Fin 4, Fin 5, Fin 4, Fin 5],
        dif = Fin (1000000 / 3), Delta = Fin 1000000, adj_dc = Fin (45 / 4)\<rparr>"
  using acdc_calc_formulas [of Some
      "\<lparr>std_readings = [Fin 3, Fin 2, Fin 3, Fin 2, Fin 3],
        dut_readings = [Fin 5, Fin 4, Fin 5, Fin 4, Fin 5]\<rparr>"
      3 2 3 2 3 5 4 5 4 5 "[Fin 1, NaN, Fin 2, NaN]" 1 2 10]
  by (simp add: idx_def)

section \<open>Running the operations\<close>

lemma bnd_run:
  "bnd m f w = (case m w of (Inl e, w') \<Rightarrow> (Inl e, w') | (Inr x, w') \<Rightarrow> f x w')"
  by (simp add: bnd_def)

lemma thn_run:
  "thn m n w = (case m w of (Inl e, w') \<Rightarrow> (Inl e, w') | (Inr x, w') \<Rightarrow> n w')"
  by (simp add: thn_def bnd_def)

lemma ret_run: "ret x w = (Inr x, w)"
  by (simp add: ret_def)

lemma raise_run: "raise e w = (Inl e, w)"
  by (simp add: raise_def)

lemma lift_run: "lift (Inr x) w = (Inr x, w)" "lift (Inl e) w = (Inl e, w)"
  by (simp_all add: lift_def ret_def raise_def)

lemma emit_run:
  "emit es \<lparr>trace = t, feed = f, registro = g\<rparr> = (Inr (), \<lparr>trace = t @ es, feed = f, registro = g\<rparr>)"
  by (simp add: emit_def)

lemma dvm_query_run:
  "dvm_query \<lparr>trace = t, feed = r # rs, registro = g\<rparr> =
     (Inr r, \<lparr>trace = t @ [Read], feed = rs, registro = g\<rparr>)"
  by (simp add: dvm_query_def)

lemmas io_run = bnd_run thn_run ret_run raise_run lift_run emit_run

lemma ler_std_run:
  "ler_std \<lparr>trace = t, feed = r # rs, registro = g\<rparr> =
     (Inr r, \<lparr>trace = t @ ev_ler_std, feed = rs, registro = g\<rparr>)"
  by (simp add: ler_std_def dvm_write_def io_run dvm_query_run ev_ler_std_def)

lemma ler_dut_run:
  "ler_dut \<lparr>trace = t, feed = r # rs, registro = g\<rparr> =
     (Inr r, \<lparr>trace = t @ ev_ler_dut, feed = rs, registro = g\<rparr>)"
  by (simp add: ler_dut_def dvm_write_def io_run dvm_query_run ev_ler_dut_def)

lemma print_std_run:
  "rs \<noteq> [] \<Longrightarrow> flt (last rs) \<noteq> None \<Longrightarrow> print_std flt rs w = (Inr (), w)"
  by (auto simp add: print_std_def io_run to_float_def)

lemma print_dut_run:
  "rs \<noteq> [] \<Longrightarrow> flt (last rs) \<noteq> None \<Longrightarrow> print_dut flt rs w = (Inr (), w)"
  by (auto simp add: print_dut_def io_run to_float_def)

lemma ler_par_run:
  assumes "flt a \<noteq> None" "flt b \<noteq> None"
  shows "ler_par flt p \<lparr>trace = t, feed = a # b # rs, registro = g\<rparr> =
     (Inr (fst p @ [a], snd p @ [b]),
      \<lparr>trace = t @ ev_ler_std @ ev_ler_dut, feed = rs, registro = g\<rparr>)"
  using assms
  by (simp add: ler_par_def io_run ler_std_run ler_dut_run print_std_run print_dut_run)

lemma fase_run:
  assumes "flt a \<noteq> None" "flt b \<noteq> None"
  shows "fase flt cfg c p \<lparr>trace = t, feed = a # b # rs, registro = g\<rparr> =
     (Inr (fst p @ [a], snd p @ [b]),
      \<lparr>trace = t @ ev_fase cfg c, feed = rs, registro = g\<rparr>)"
  using assms
  by (simp add: fase_def sw_write_raw_def espera_def io_run ler_par_run ev_fase_def)

lemma measure_fresh:
  assumes f: "list_all (\<lambda>r. flt r \<noteq> None) [s0, d0, s1, d1, s2, d2, s3, d3, s4, d4]"
  shows "measure_cycle flt cfg freq vdc vac []
           \<lparr>trace = t, feed = s0 # d0 # s1 # d1 # s2 # d2 # s3 # d3 # s4 # d4 # rest, registro = g\<rparr> =
         (Inr \<lparr>std_readings = [s0, s1, s2, s3, s4], dut_readings = [d0, d1, d2, d3, d4]\<rparr>,
          \<lparr>trace = t @ ev_measure_config freq vdc vac
                     @ ev_fase cfg ac @ ev_fase cfg dc @ ev_fase cfg ac @ ev_fase cfg dc @ ev_fase cfg ac,
           feed = rest, registro = g\<rparr>)"
  using f
  by (simp add: measure_cycle_def source_write_def espera_def io_run fase_run ev_measure_config_def)

lemma measure_carry:
  assumes c: "flt c0 \<noteq> None" "flt c1 \<noteq> None"
      and f: "list_all (\<lambda>r. flt r \<noteq> None) [s1, d1, s2, d2, s3, d3, s4, d4]"
  shows "measure_cycle flt cfg freq vdc_atual vac_atual (c0 # c1 # cs)
           \<lparr>trace = t, feed = s1 # d1 # s2 # d2 # s3 # d3 # s4 # d4 # rest, registro = g\<rparr> =
         (Inr \<lparr>std_readings = [c0, s1, s2, s3, s4], dut_readings = [c1, d1, d2, d3, d4]\<rparr>,
          \<lparr>trace = t @ ev_measure_config freq vdc_atual vac_atual
                     @ ev_fase cfg dc @ ev_fase cfg ac @ ev_fase cfg dc @ ev_fase cfg ac,
           feed = rest, registro = g\<rparr>)"
  using c f
  by (simp add: measure_cycle_def source_write_def espera_def io_run idx_def
      print_std_run print_dut_run fase_run ev_measure_config_def)

section \<open>Properties of the measurement cycle\<close>

text \<open>
  Claim C7. When a carried-over pair is supplied to \<open>measure\<close> (a list that starts
  with the standard and the device reading of the previous cycle's last AC phase), the
  returned cycle has exactly that pair at phase 0, and the commands issued go from the
  configuration of the source straight to the DC phase: no switch command, no settling
  wait and no read for phase 0. The phases 1 to 4 are routed, waited for and read as in
  a cycle without carry-over (\<open>measure_fresh\<close>). The replies are assumed to be there
  and to be numbers, as the cycle is returned only then.
\<close>

theorem measure_carry_over:
  assumes c: "flt c0 \<noteq> None" "flt c1 \<noteq> None"
      and f: "list_all (\<lambda>r. flt r \<noteq> None) [s1, d1, s2, d2, s3, d3, s4, d4]"
  shows "measure_cycle flt cfg freq vdc_atual vac_atual (c0 # c1 # cs)
           \<lparr>trace = t, feed = s1 # d1 # s2 # d2 # s3 # d3 # s4 # d4 # rest, registro = g\<rparr> =
         (Inr \<lparr>std_readings = [c0, s1, s2, s3, s4], dut_readings = [c1, d1, d2, d3, d4]\<rparr>,
          \<lparr>trace = t @ ev_measure_config freq vdc_atual vac_atual
                     @ ev_fase cfg dc @ ev_fase cfg ac @ ev_fase cfg dc @ ev_fase cfg ac,
           feed = rest, registro = g\<rparr>)"
  using c f by (rule measure_carry)

theorem measure_carry_over_witness:
  "measure_cycle Some cfg_ex (Fin 1000000) (Fin 10) (Fin 10) [Fin 5, Fin 7]
     \<lparr>trace = [], feed = [Fin 1, Fin 2, Fin 3, Fin 4, Fin 5, Fin 6, Fin 7, Fin 8, Fin 9],
      registro = []\<rparr> =
   (Inr \<lparr>std_readings = [Fin 5, Fin 1, Fin 3, Fin 5, Fin 7],
         dut_readings = [Fin 7, Fin 2, Fin 4, Fin 6, Fin 8]\<rparr>,
    \<lparr>trace = [Source (SOUR_VOLT 2 (Fin 10)), Source (SOUR_FREQ 2 (Fin 1000000)),
              Source (SOUR_VOLT 1 (Fin 10)), Source (SOUR_FREQ 1 (Fin 100000)), Sleep 20,
              Switch dc, Sleep 10] @ ev_ler_std @ ev_ler_dut @
             [Switch ac, Sleep 10] @ ev_ler_std @ ev_ler_dut @
             [Switch dc, Sleep 10] @ ev_ler_std @ ev_ler_dut @
             [Switch ac, Sleep 10] @ ev_ler_std @ ev_ler_dut,
     feed = [Fin 9], registro = []\<rparr>)"
  using measure_carry_over [of Some "Fin 5" "Fin 7" "Fin 1" "Fin 2" "Fin 3" "Fin 4" "Fin 5"
      "Fin 6" "Fin 7" "Fin 8" cfg_ex "Fin 1000000" "Fin 10" "Fin 10" "[]" "[]" "[Fin 9]" "[]"]
  by (simp add: ev_measure_config_def ev_fase_def cfg_ex_def)


section \<open>Properties of the linearity estimation\<close>

lemma n_iter_run:
  assumes "flt a \<noteq> None" "flt b \<noteq> None"
  shows "n_iter flt cfg i (sr, dr, k) \<lparr>trace = t, feed = a # b # rs, registro = g\<rparr> =
     (Inr (sr @ [a], dr @ [b], k @ [n_weight i]),
      \<lparr>trace = t @ ev_n_iter cfg i, feed = rs, registro = g\<rparr>)"
  using assms
  by (simp add: n_iter_def Let_def sw_write_raw_def source_write_def espera_def io_run
      ler_par_run ev_n_iter_def n_weight_def)

lemma n_loop_run:
  assumes "length xs = length is" "length ys = length is"
      and "list_all (\<lambda>r. flt r \<noteq> None) xs" "list_all (\<lambda>r. flt r \<noteq> None) ys"
  shows "n_loop flt cfg is (sr, dr, k)
           \<lparr>trace = t, feed = interleave xs ys @ rest, registro = g\<rparr> =
         (Inr (sr @ xs, dr @ ys, k @ map n_weight is),
          \<lparr>trace = t @ concat (map (ev_n_iter cfg) is), feed = rest, registro = g\<rparr>)"
  using assms
proof (induction "is" arbitrary: xs ys sr dr k t)
  case Nil
  then show ?case by (simp add: io_run interleave_def)
next
  case (Cons i "is")
  from Cons.prems obtain x xs' y ys' where xy: "xs = x # xs'" "ys = y # ys'"
    by (cases xs; cases ys) auto
  with Cons.prems have p: "flt x \<noteq> None" "flt y \<noteq> None"
    and l: "length xs' = length is" "length ys' = length is"
    and a: "list_all (\<lambda>r. flt r \<noteq> None) xs'" "list_all (\<lambda>r. flt r \<noteq> None) ys'"
    by auto
  have f: "interleave (x # xs') (y # ys') @ rest = x # y # interleave xs' ys' @ rest"
    by (simp add: interleave_def)
  show ?case
    by (simp add: xy f io_run n_iter_run p Cons.IH [OF l a])
qed

lemma lift_run_any: "lift m w = (m, w)"
  by (cases m) (simp_all add: io_run)

lemma length_upto_int: "length [1..m] = nat m"
  by simp

lemma n_measure_run:
  assumes "length xs = length [1..(if M mod 2 \<noteq> 0 then M + 1 else M)]"
      and "length ys = length [1..(if M mod 2 \<noteq> 0 then M + 1 else M)]"
      and "flt x0 \<noteq> None" "flt y0 \<noteq> None"
      and "list_all (\<lambda>r. flt r \<noteq> None) xs" "list_all (\<lambda>r. flt r \<noteq> None) ys"
  shows "n_measure flt cfg freq M
           \<lparr>trace = t, feed = x0 # y0 # interleave xs ys @ rest, registro = g\<rparr> =
         (n_calc flt (x0 # xs) (y0 # ys)
            (map n_weight [1..(if M mod 2 \<noteq> 0 then M + 1 else M)]),
          \<lparr>trace = t @ ev_n_baseline cfg freq
                     @ concat (map (ev_n_iter cfg) [1..(if M mod 2 \<noteq> 0 then M + 1 else M)])
                     @ [Switch ac],
           feed = rest, registro = g\<rparr>)"
proof -
  have "n_loop flt cfg [1..(if M mod 2 \<noteq> 0 then M + 1 else M)] ([x0], [y0], [])
           \<lparr>trace = t', feed = interleave xs ys @ rest, registro = g\<rparr> =
         (Inr ([x0] @ xs, [y0] @ ys, [] @ map n_weight [1..(if M mod 2 \<noteq> 0 then M + 1 else M)]),
          \<lparr>trace = t' @ concat (map (ev_n_iter cfg) [1..(if M mod 2 \<noteq> 0 then M + 1 else M)]),
           feed = rest, registro = g\<rparr>)" for t'
    using assms(1,2,5,6) by (rule n_loop_run)
  then show ?thesis
    using assms(3,4)
    by (simp add: n_measure_def Let_def sw_write_raw_def source_write_def espera_def io_run
        ler_par_run lift_run_any ev_n_baseline_def del: upto.simps)
qed

lemma floats_run:
  "list_all2 (\<lambda>a v. flt a = Some v) rs vs \<Longrightarrow> floats flt rs = Inr vs"
  by (induction rs vs rule: list_all2_induct) (simp_all add: ebind_def to_float_def)

lemma n_calc_run:
  assumes "flt x0 = Some X0" "flt y0 = Some Y0"
      and "list_all2 (\<lambda>a v. flt a = Some v) xs Xi" "list_all2 (\<lambda>a v. flt a = Some v) ys Yi"
  shows "n_calc flt (x0 # xs) (y0 # ys) k =
     Inr \<lparr>n_results =
            [np_mean (map2 (\<lambda>x w. fmul (fsub (fdiv x X0) (Fin 1)) (Fin (real_of_int w))) Xi k),
             np_std_ddof1 (map2 (\<lambda>x w. fmul (fsub (fdiv x X0) (Fin 1)) (Fin (real_of_int w))) Xi k),
             np_mean (map2 (\<lambda>y w. fmul (fsub (fdiv y Y0) (Fin 1)) (Fin (real_of_int w))) Yi k),
             np_std_ddof1 (map2 (\<lambda>y w. fmul (fsub (fdiv y Y0) (Fin 1)) (Fin (real_of_int w))) Yi k)],
          n_Xi = Xi, n_X0 = X0, n_Yi = Yi, n_Y0 = Y0, n_k = k,
          n_nX = map2 (\<lambda>x w. fmul (fsub (fdiv x X0) (Fin 1)) (Fin (real_of_int w))) Xi k,
          n_nY = map2 (\<lambda>y w. fmul (fsub (fdiv y Y0) (Fin 1)) (Fin (real_of_int w))) Yi k\<rparr>"
proof -
  have "floats flt xs = Inr Xi" "floats flt ys = Inr Yi"
    using assms(3,4) by (auto intro: floats_run)
  then show ?thesis
    using assms(1,2) by (simp add: n_calc_def idx_def ebind_def to_float_def Let_def)
qed

lemma foldl_fadd_Fin: "foldl fadd (Fin a) (map Fin xs) = Fin (a + sum_list xs)"
  by (induction xs arbitrary: a) (simp_all add: add.assoc)

lemma np_sum_Fin: "np_sum (map Fin xs) = Fin (sum_list xs)"
  by (simp add: np_sum_def foldl_fadd_Fin)

lemma np_mean_Fin: "xs \<noteq> [] \<Longrightarrow> np_mean (map Fin xs) = Fin (sum_list xs / real (length xs))"
  by (simp add: np_mean_def np_sum_Fin)

lemma np_std_ddof1_Fin:
  assumes "2 \<le> length xs"
  shows "np_std_ddof1 (map Fin xs) =
     Fin (sqrt ((\<Sum>x\<leftarrow>xs. (x - sum_list xs / real (length xs))\<^sup>2) / (real (length xs) - 1)))"
proof -
  let ?m = "sum_list xs / real (length xs)"
  have ne: "xs \<noteq> []" using assms by auto
  have "map (\<lambda>d. fmul d d) (map (\<lambda>a. fsub a (Fin ?m)) (map Fin xs)) =
          map Fin (map (\<lambda>x. (x - ?m)\<^sup>2) xs)"
    by (simp add: fsub_def power2_eq_square)
  then have sq: "np_sum (map (\<lambda>d. fmul d d) (map (\<lambda>a. fsub a (Fin ?m)) (map Fin xs))) =
          Fin (\<Sum>x\<leftarrow>xs. (x - ?m)\<^sup>2)"
    by (simp only: np_sum_Fin)
  have nonneg: "0 \<le> (\<Sum>x\<leftarrow>xs. (x - ?m)\<^sup>2)"
    by (rule sum_list_nonneg) auto
  have len: "real (length xs - 1) = real (length xs) - 1" "real (length xs) - 1 > 0"
    using assms by (simp_all add: of_nat_diff)
  have pos: "\<not> (\<Sum>x\<leftarrow>xs. (x - ?m)\<^sup>2) / (real (length xs) - 1) < 0"
    using nonneg len(2) ne by (simp add: divide_less_0_iff not_less)
  have "np_std_ddof1 (map Fin xs) =
          fsqrt (fdiv (Fin (\<Sum>x\<leftarrow>xs. (x - ?m)\<^sup>2)) (Fin (real (length xs) - 1)))"
    unfolding np_std_ddof1_def Let_def np_mean_Fin [OF ne] sq length_map len(1) ..
  also have "\<dots> = Fin (sqrt ((\<Sum>x\<leftarrow>xs. (x - ?m)\<^sup>2) / (real (length xs) - 1)))"
    using pos len(2) by simp
  finally show ?thesis .
qed


lemma numeric_values:
  "list_all (\<lambda>r. flt r \<noteq> None) rs \<Longrightarrow> list_all2 (\<lambda>a v. flt a = Some v) rs (map (the \<circ> flt) rs)"
  by (induction rs) auto

text \<open>
  Claim C5. For every positive \<open>M\<close>, \<open>n_measure\<close> makes exactly \<open>M\<close> passes of its
  loop when \<open>M\<close> is even and exactly \<open>M + 1\<close> when \<open>M\<close> is odd: the commands issued
  after the baseline are those of the passes \<open>1, ..., M'\<close> and nothing else but the
  closing switch to AC, and the list \<open>k\<close> has one weight per pass, 100 on the odd passes
  (which apply 1.01 of the nominal DC voltage, see \<open>ev_n_iter\<close>) and -100 on the even
  ones (0.99 of it). The count \<open>M'\<close> is even and at least \<open>M\<close>. The voltmeter is
  assumed to answer every query with a number.
\<close>

theorem n_measure_iterations:
  fixes M :: int
  defines "M' \<equiv> (if M mod 2 \<noteq> 0 then M + 1 else M)"
  assumes M: "0 < M"
      and len: "length xs = nat M'" "length ys = nat M'"
      and num: "list_all (\<lambda>r. flt r \<noteq> None) (x0 # xs)" "list_all (\<lambda>r. flt r \<noteq> None) (y0 # ys)"
  shows "\<exists>na. n_measure flt cfg freq M
                \<lparr>trace = t, feed = x0 # y0 # interleave xs ys @ rest, registro = g\<rparr> =
              (Inr na,
               \<lparr>trace = t @ ev_n_baseline cfg freq @ concat (map (ev_n_iter cfg) [1..M'])
                          @ [Switch ac],
                feed = rest, registro = g\<rparr>)
            \<and> n_k na = map (\<lambda>i. if i mod 2 = 0 then - 100 else 100) [1..M']
            \<and> int (length (n_k na)) = M' \<and> M' mod 2 = 0 \<and> M \<le> M'
            \<and> (M mod 2 = 0 \<longrightarrow> M' = M) \<and> (M mod 2 \<noteq> 0 \<longrightarrow> M' = M + 1)"
proof -
  obtain X0 Y0 where b: "flt x0 = Some X0" "flt y0 = Some Y0"
    using num by auto
  have v: "list_all2 (\<lambda>a v. flt a = Some v) xs (map (the \<circ> flt) xs)"
      "list_all2 (\<lambda>a v. flt a = Some v) ys (map (the \<circ> flt) ys)"
    using num by (simp_all add: numeric_values)
  have run: "n_measure flt cfg freq M
               \<lparr>trace = t, feed = x0 # y0 # interleave xs ys @ rest, registro = g\<rparr> =
             (n_calc flt (x0 # xs) (y0 # ys) (map n_weight [1..M']),
              \<lparr>trace = t @ ev_n_baseline cfg freq @ concat (map (ev_n_iter cfg) [1..M'])
                         @ [Switch ac],
               feed = rest, registro = g\<rparr>)"
    unfolding M'_def by (rule n_measure_run) (use len num in \<open>simp_all add: M'_def\<close>)
  have w: "map n_weight [1..M'] = map (\<lambda>i. if i mod 2 = 0 then - 100 else 100) [1..M']"
    by (simp add: n_weight_def)
  have M': "M' mod 2 = 0" "M \<le> M'" "0 \<le> M'"
    using M by (auto simp: M'_def) presburger
  show ?thesis
    unfolding run n_calc_run [OF b v] w
    using M' by (auto simp: M'_def)
qed

theorem n_measure_iterations_witness:
  "\<exists>na. n_measure Some cfg_ex (Fin 1000000) 3
           \<lparr>trace = [],
            feed = [Fin 1, Fin 2, Fin 3, Fin 4, Fin 5, Fin 6, Fin 7, Fin 8, Fin 9, Fin 10, Fin 11],
            registro = []\<rparr> =
         (Inr na,
          \<lparr>trace = ev_n_baseline cfg_ex (Fin 1000000) @ ev_n_iter cfg_ex 1 @ ev_n_iter cfg_ex 2
                    @ ev_n_iter cfg_ex 3 @ ev_n_iter cfg_ex 4 @ [Switch ac],
           feed = [Fin 11], registro = []\<rparr>)
       \<and> n_k na = [100, - 100, 100, - 100]"
proof -
  have u: "[1..4::int] = [1, 2, 3, 4]"
    by (simp add: upto.simps)
  show ?thesis
    using n_measure_iterations [of 3 "[Fin 3, Fin 5, Fin 7, Fin 9]" "[Fin 4, Fin 6, Fin 8, Fin 10]"
        Some "Fin 1" "Fin 2" cfg_ex "Fin 1000000" "[]" "[Fin 11]" "[]"]
    by (auto simp add: interleave_def u)
qed




section \<open>Properties of the equilibrium voltage\<close>

lemma equilibrio_run:
  assumes "flt r0 = Some xi" "flt r1 = Some xp0" "flt r2 = Some xp1"
  shows "equilibrio flt cfg freq \<lparr>trace = t, feed = r0 # r1 # r2 # rest, registro = g\<rparr> =
     (np_interp xi [xp0, xp1]
        [fmul (Fin 0.999) (vac_nominal cfg), fmul (Fin 1.001) (vac_nominal cfg)],
      \<lparr>trace = t @ ev_equilibrio cfg freq, feed = rest, registro = g\<rparr>)"
  using assms
  by (simp add: equilibrio_def source_write_def sw_write_raw_def espera_def io_run ler_dut_run
      print_dut_run lift_run_any to_float_def ebind_def ev_equilibrio_def)

text \<open>
  Claim C4 says that \<open>equilibrio\<close> returns the linear interpolation of the target
  reading \<open>xi\<close> against the bracket points, and that for \<open>xi\<close> outside
  \<open>[xp[0], xp[1]]\<close> it returns the extrapolation of the line through them. The
  second half does not hold: \<open>numpy.interp\<close> does not extrapolate. With the bracket
  readings 1 and 2 at a nominal voltage of 10 and the target reading 3, \<open>equilibrio\<close>
  returns 10.01, the upper bracket voltage, and not the 10.03 of the line.
\<close>

theorem equilibrio_extrapolation_counterexample:
  "fst (equilibrio Some cfg_ex (Fin 1000000)
         \<lparr>trace = [], feed = [Fin 3, Fin 1, Fin 2], registro = []\<rparr>) = Inr (Fin 10.01)
   \<and> fst (equilibrio Some cfg_ex (Fin 1000000)
         \<lparr>trace = [], feed = [Fin 3, Fin 1, Fin 2], registro = []\<rparr>)
     \<noteq> Inr (Fin (line_through 1 (0.999 * 10) 2 (1.001 * 10) 3))"
  by (simp add: equilibrio_run [of Some "Fin 3" "Fin 3" "Fin 1" "Fin 1" "Fin 2" "Fin 2"] cfg_ex_def
      np_interp_def line_through_def)


text \<open>
  Claim C4, amended. For finite readings with \<open>xp[0] < xp[1]\<close>, \<open>equilibrio\<close>
  returns the point at \<open>xi\<close> of the line through \<open>(xp[0], 0.999 * vac_nominal)\<close>
  and \<open>(xp[1], 1.001 * vac_nominal)\<close> when \<open>xp[0] \<le> xi \<le> xp[1]\<close>; for \<open>xi\<close>
  below \<open>xp[0]\<close> it returns \<open>0.999 * vac_nominal\<close> and for \<open>xi\<close> above \<open>xp[1]\<close> it
  returns \<open>1.001 * vac_nominal\<close>. No error is raised in either case.
\<close>

theorem equilibrio_clamps:
  assumes r: "flt r0 = Some (Fin x)" "flt r1 = Some (Fin a)" "flt r2 = Some (Fin b)"
      and inc: "a < b"
      and v: "vac_nominal cfg = Fin v"
  shows "equilibrio flt cfg freq \<lparr>trace = t, feed = r0 # r1 # r2 # rest, registro = g\<rparr> =
     (Inr (Fin (if x < a then 0.999 * v
                else if b < x then 1.001 * v
                else line_through a (0.999 * v) b (1.001 * v) x)),
      \<lparr>trace = t @ ev_equilibrio cfg freq, feed = rest, registro = g\<rparr>)"
proof -
  have "np_interp (Fin x) [Fin a, Fin b] [Fin (0.999 * v), Fin (1.001 * v)] =
        Inr (Fin (if x < a then 0.999 * v
                  else if b < x then 1.001 * v
                  else line_through a (0.999 * v) b (1.001 * v) x))"
    using inc by (auto simp: np_interp_def fsub_def line_through_def field_simps)
  then show ?thesis
    using r by (simp add: equilibrio_run [of flt r0 "Fin x" r1 "Fin a" r2 "Fin b"] v)
qed

theorem equilibrio_clamps_witness:
  "equilibrio Some cfg_ex (Fin 1000000)
     \<lparr>trace = [], feed = [Fin 1.5, Fin 1, Fin 2, Fin 7], registro = []\<rparr> =
   (Inr (Fin 10), \<lparr>trace = ev_equilibrio cfg_ex (Fin 1000000), feed = [Fin 7], registro = []\<rparr>)"
  using equilibrio_clamps [of Some "Fin 1.5" "1.5" "Fin 1" 1 "Fin 2" 2 cfg_ex 10
      "Fin 1000000" "[]" "[Fin 7]" "[]"]
  by (simp add: cfg_ex_def line_through_def)


section \<open>Properties of one repetition\<close>

text \<open>
  Two facts about an operation that hold whatever the voltmeter answers:
  \<open>establishes m Q\<close>, when \<open>m\<close> returns its value satisfies \<open>Q\<close>; and \<open>quiet m\<close>,
  \<open>m\<close> appends nothing to the record file.
\<close>

definition establishes :: "('r, 'a) io \<Rightarrow> ('a \<Rightarrow> bool) \<Rightarrow> bool" where
  "establishes m Q = (\<forall>w x w'. m w = (Inr x, w') \<longrightarrow> Q x)"

definition quiet :: "('r, 'a) io \<Rightarrow> bool" where
  "quiet m = (\<forall>w. registro (snd (m w)) = registro w)"

lemma establishes_ret: "Q x \<Longrightarrow> establishes (ret x) Q"
  by (simp add: establishes_def ret_def)

lemma establishes_any: "establishes m (\<lambda>_. True)"
  by (simp add: establishes_def)

lemma establishes_bnd:
  assumes "establishes m P" and "\<And>x. P x \<Longrightarrow> establishes (f x) Q"
  shows "establishes (bnd m f) Q"
  unfolding establishes_def
proof (intro allI impI)
  fix w y w'
  assume run: "bnd m f w = (Inr y, w')"
  obtain r w1 where mw: "m w = (r, w1)" by (cases "m w")
  with run obtain x where r: "r = Inr x" and fx: "f x w1 = (Inr y, w')"
    by (cases r) (auto simp: bnd_def)
  have "P x" using assms(1) mw r by (auto simp: establishes_def)
  then show "Q y" using assms(2) [of x] fx by (auto simp: establishes_def)
qed

lemma establishes_thn: "establishes n Q \<Longrightarrow> establishes (thn m n) Q"
  unfolding thn_def by (rule establishes_bnd [OF establishes_any])

lemma establishes_ler_par:
  "establishes (ler_par flt p)
     (\<lambda>q. length (fst q) = Suc (length (fst p)) \<and> length (snd q) = Suc (length (snd p)))"
  unfolding ler_par_def
  by (intro establishes_bnd [OF establishes_any] establishes_thn establishes_ret) simp

lemma establishes_fase:
  "establishes (fase flt cfg c p)
     (\<lambda>q. length (fst q) = Suc (length (fst p)) \<and> length (snd q) = Suc (length (snd p)))"
  unfolding fase_def by (intro establishes_thn establishes_ler_par)

lemma establishes_measure:
  "establishes (measure_cycle flt cfg freq v1 v2 c)
     (\<lambda>rd. length (std_readings rd) = 5 \<and> length (dut_readings rd) = 5)"
proof -
  let ?L = "\<lambda>n (q :: 'a list \<times> 'a list). length (fst q) = n \<and> length (snd q) = n"
  have step: "?L n p \<Longrightarrow> establishes (fase flt cfg sw p) (?L (Suc n))" for n p sw
    using establishes_fase [of flt cfg sw p] by (simp add: establishes_def)
  have first: "establishes
     (if c = [] then fase flt cfg ac ([], [])
      else bnd (lift (idx c 0)) (\<lambda>c0. bnd (lift (idx c 1)) (\<lambda>c1.
           thn (print_std flt [c0]) (thn (print_dut flt [c1]) (ret ([c0], [c1]))))))
     (?L 1)"
  proof (cases "c = []")
    case True
    then show ?thesis using step [where n = 0 and p = "([], [])" and sw = ac] by simp
  next
    case False
    then show ?thesis
      by (simp only: if_False)
         (intro establishes_bnd [OF establishes_any] establishes_thn establishes_ret, simp)
  qed
  show ?thesis
    unfolding measure_cycle_def
    apply (intro establishes_thn)
    apply (rule establishes_bnd [OF first])
    apply (rule establishes_bnd [OF step], assumption)
    apply (rule establishes_bnd [OF step], assumption)
    apply (rule establishes_bnd [OF step], assumption)
    apply (rule establishes_bnd [OF step], assumption)
    apply (rule establishes_ret)
    apply (simp add: eval_nat_numeral)
    done
qed

lemma measure_cycle_lengths:
  "measure_cycle flt cfg freq v1 v2 c w = (Inr rd, w') \<Longrightarrow>
     length (std_readings rd) = 5 \<and> length (dut_readings rd) = 5"
  using establishes_measure [of flt cfg freq v1 v2 c] by (auto simp: establishes_def)

lemma quiet_ret [intro!]: "quiet (ret x)"
  by (simp add: quiet_def ret_def)

lemma quiet_raise [intro!]: "quiet (raise e)"
  by (simp add: quiet_def raise_def)

lemma quiet_lift [intro!]: "quiet (lift m)"
  by (cases m) (simp_all add: lift_def quiet_raise quiet_ret)

lemma quiet_emit [intro!]: "quiet (emit es)"
  by (simp add: quiet_def emit_def)

lemma quiet_dvm_query [intro!]: "quiet dvm_query"
  by (simp add: quiet_def dvm_query_def split: list.split)

lemma quiet_bnd [intro!]:
  assumes "quiet m" and "\<And>x. quiet (f x)"
  shows "quiet (bnd m f)"
  unfolding quiet_def
proof
  fix w
  obtain r w1 where mw: "m w = (r, w1)" by (cases "m w")
  have 1: "registro w1 = registro w"
    using assms(1) mw by (auto simp: quiet_def dest: spec [of _ w])
  show "registro (snd (bnd m f w)) = registro w"
  proof (cases r)
    case (Inl e)
    then show ?thesis using mw 1 by (simp add: bnd_def)
  next
    case (Inr x)
    have "registro (snd (f x w1)) = registro w1"
      using assms(2) [of x] by (simp add: quiet_def)
    then show ?thesis using mw 1 Inr by (simp add: bnd_def)
  qed
qed

lemma quiet_thn [intro!]: "quiet m \<Longrightarrow> quiet n \<Longrightarrow> quiet (thn m n)"
  by (simp add: thn_def quiet_bnd)

lemma quiet_if [intro!]: "quiet m \<Longrightarrow> quiet n \<Longrightarrow> quiet (if b then m else n)"
  by simp

lemma quiet_fase [intro!]: "quiet (fase flt cfg c p)"
  by (auto simp: fase_def sw_write_raw_def espera_def ler_par_def ler_std_def ler_dut_def
      dvm_write_def print_std_def print_dut_def)

lemma quiet_measure: "quiet (measure_cycle flt cfg freq v1 v2 c)"
  by (auto simp: measure_cycle_def source_write_def espera_def print_std_def print_dut_def)

lemma measure_cycle_registro:
  "measure_cycle flt cfg freq v1 v2 c w = (r, w') \<Longrightarrow> registro w' = registro w"
  using quiet_measure [of flt cfg freq v1 v2 c] by (auto simp: quiet_def dest: spec [of _ w])

lemma ciclo_ac_of_world: "ciclo_ac_of s w = (r, w') \<Longrightarrow> w' = w"
  by (auto simp: ciclo_ac_of_def io_run lift_run_any split: if_splits option.splits sum.splits prod.splits)

lemma registro_linha_run:
  "registro_linha res v w = (Inr (), w\<lparr>registro := registro w @ [RegLinha res v]\<rparr>)"
  by (simp add: registro_linha_def)

lemma repeticao_run:
  assumes c: "ciclo_ac_of s w = (Inr (ciclo_ac, s1), w)"
      and m: "measure_cycle flt cfg freq (l_vdc_atual s1) vac ciclo_ac w = (Inr rd, w1)"
      and a: "acdc_calc flt rd n_value (l_vdc_atual s1) = Inr res"
  shows "repeticao flt cfg freq n_value vac s w =
     (if fgt (fabs (Delta res)) (Fin 50)
      then (if fgt (adj_dc res) (fmul (Fin 1.1) (vdc_nominal cfg))
            then (Inl (NameError ''Tensao DC ajustada perigosamente alta!''), w1)
            else (Inr (s1\<lparr>l_readings := Some rd, l_vdc_atual := adj_dc res\<rparr>), w1))
      else (if fgt (adj_dc res) (fmul (Fin 1.1) (vdc_nominal cfg))
            then (Inl (NameError ''Tensao DC ajustada perigosamente alta!''),
                  w1\<lparr>registro := registro w1 @ [RegLinha res (l_vdc_atual s1)]\<rparr>)
            else (Inr (s1\<lparr>l_diff_acdc := l_diff_acdc s1 @ [dif res],
                          l_Delta := l_Delta s1 @ [Delta res],
                          l_i := l_i s1 + 1,
                          l_readings := Some rd, l_vdc_atual := adj_dc res\<rparr>),
                  w1\<lparr>registro := registro w1 @ [RegLinha res (l_vdc_atual s1)]\<rparr>)))"
  by (simp add: repeticao_def io_run c m a registro_linha_run)

lemma ciclo_ac_of_next:
  assumes "length (std_readings rd) = 5" "length (dut_readings rd) = 5"
      and "l_first_measure s = False" "l_readings s = Some rd"
  shows "ciclo_ac_of s w = (Inr ([std_readings rd ! 4, dut_readings rd ! 4], s), w)"
  using assms by (simp add: ciclo_ac_of_def io_run idx_def)

lemma ciclo_ac_of_first_measure:
  "ciclo_ac_of s w = (Inr (c, s1), w') \<Longrightarrow>
     l_first_measure s1 = False \<and> l_i s1 = l_i s \<and> l_vdc_atual s1 = l_vdc_atual s \<and>
     l_diff_acdc s1 = l_diff_acdc s \<and> l_Delta s1 = l_Delta s"
  by (auto simp: ciclo_ac_of_def io_run lift_run_any idx_def split: if_splits option.splits)

text \<open>
  Claim C2. In an iteration of the sampling loop where the computed \<open>|Delta|\<close> exceeds
  50 the repetition is discarded: the count \<open>i\<close> and the lists of accepted values are
  as before and the record file has no new line. The applied DC voltage is all the same
  replaced by \<open>adj_dc\<close>, and the pair read in phase 4 of this cycle is what the next
  iteration takes as \<open>ciclo_ac\<close>. The premises name the cycle \<open>rd\<close> that the
  iteration measures and the result \<open>res\<close> of \<open>acdc_calc\<close> on it. Where the replaced
  voltage exceeds 1.1 of the nominal one the iteration raises instead of returning.
\<close>

theorem discarded_repetition:
  assumes c: "ciclo_ac_of s w = (Inr (ciclo_ac, s1), w)"
      and m: "measure_cycle flt cfg freq (l_vdc_atual s) vac ciclo_ac w = (Inr rd, w1)"
      and a: "acdc_calc flt rd n_value (l_vdc_atual s) = Inr res"
      and d: "fgt (fabs (Delta res)) (Fin 50)"
  shows "registro w1 = registro w \<and>
         (if fgt (adj_dc res) (fmul (Fin 1.1) (vdc_nominal cfg))
          then repeticao flt cfg freq n_value vac s w =
                 (Inl (NameError ''Tensao DC ajustada perigosamente alta!''), w1)
          else \<exists>s'. repeticao flt cfg freq n_value vac s w = (Inr s', w1)
                 \<and> l_i s' = l_i s \<and> l_diff_acdc s' = l_diff_acdc s \<and> l_Delta s' = l_Delta s
                 \<and> l_vdc_atual s' = adj_dc res
                 \<and> ciclo_ac_of s' w1 = (Inr ([std_readings rd ! 4, dut_readings rd ! 4], s'), w1))"
proof -
  have s1: "l_first_measure s1 = False" "l_i s1 = l_i s" "l_vdc_atual s1 = l_vdc_atual s"
    "l_diff_acdc s1 = l_diff_acdc s" "l_Delta s1 = l_Delta s"
    using ciclo_ac_of_first_measure [OF c] by simp_all
  let ?s = "s1\<lparr>l_readings := Some rd, l_vdc_atual := adj_dc res\<rparr>"
  have run: "repeticao flt cfg freq n_value vac s w =
      (if fgt (adj_dc res) (fmul (Fin 1.1) (vdc_nominal cfg))
       then (Inl (NameError ''Tensao DC ajustada perigosamente alta!''), w1)
       else (Inr ?s, w1))"
    using repeticao_run [OF c, of flt cfg freq vac rd w1 n_value res] m a d
    by (simp add: s1)
  have len: "length (std_readings rd) = 5" "length (dut_readings rd) = 5"
    using measure_cycle_lengths [OF m] by simp_all
  have nxt: "ciclo_ac_of ?s w1 = (Inr ([std_readings rd ! 4, dut_readings rd ! 4], ?s), w1)"
    using len s1 by (intro ciclo_ac_of_next) simp_all
  show ?thesis
  proof (cases "fgt (adj_dc res) (fmul (Fin 1.1) (vdc_nominal cfg))")
    case True
    then show ?thesis using run measure_cycle_registro [OF m] by simp
  next
    case False
    then have "repeticao flt cfg freq n_value vac s w = (Inr ?s, w1)"
      using run by simp
    then show ?thesis
      using False nxt s1 measure_cycle_registro [OF m] by simp
  qed
qed

theorem discarded_repetition_witness:
  "\<exists>s'. repeticao Some cfg_ex (Fin 1000000) [Fin 1, NaN, Fin 2, NaN] (Fin 10) (loop_init cfg_ex)
          \<lparr>trace = [],
           feed = [Fin 3, Fin 1.001, Fin 2, Fin 1, Fin 3, Fin 1.001, Fin 2, Fin 1, Fin 3, Fin 1.001],
           registro = [Cabecalho]\<rparr> =
        (Inr s',
         \<lparr>trace = ev_measure_config (Fin 1000000) (Fin 10) (Fin 10) @ ev_fase cfg_ex ac
                   @ ev_fase cfg_ex dc @ ev_fase cfg_ex ac @ ev_fase cfg_ex dc @ ev_fase cfg_ex ac,
          feed = [], registro = [Cabecalho]\<rparr>)
      \<and> l_i s' = 0 \<and> l_diff_acdc s' = [] \<and> l_vdc_atual s' = Fin 10.005
      \<and> fst (ciclo_ac_of s'
            \<lparr>trace = ev_measure_config (Fin 1000000) (Fin 10) (Fin 10) @ ev_fase cfg_ex ac
                   @ ev_fase cfg_ex dc @ ev_fase cfg_ex ac @ ev_fase cfg_ex dc @ ev_fase cfg_ex ac,
             feed = [], registro = [Cabecalho]\<rparr>) = Inr ([Fin 3, Fin 1.001], s')"
proof -
  let ?w = "\<lparr>trace = [],
           feed = [Fin 3, Fin 1.001, Fin 2, Fin 1, Fin 3, Fin 1.001, Fin 2, Fin 1, Fin 3, Fin 1.001],
           registro = [Cabecalho]\<rparr> :: npfloat world"
  let ?w1 = "\<lparr>trace = ev_measure_config (Fin 1000000) (Fin 10) (Fin 10) @ ev_fase cfg_ex ac
                   @ ev_fase cfg_ex dc @ ev_fase cfg_ex ac @ ev_fase cfg_ex dc @ ev_fase cfg_ex ac,
          feed = [], registro = [Cabecalho]\<rparr> :: npfloat world"
  let ?rd = "\<lparr>std_readings = [Fin 3, Fin 2, Fin 3, Fin 2, Fin 3],
             dut_readings = [Fin 1.001, Fin 1, Fin 1.001, Fin 1, Fin 1.001]\<rparr>"
  have c: "ciclo_ac_of (loop_init cfg_ex) ?w =
             (Inr ([], (loop_init cfg_ex)\<lparr>l_first_measure := False\<rparr>), ?w)"
    by (simp add: ciclo_ac_of_def loop_init_def io_run)
  have m: "measure_cycle Some cfg_ex (Fin 1000000) (l_vdc_atual (loop_init cfg_ex)) (Fin 10) [] ?w
             = (Inr ?rd, ?w1)"
    by (simp add: measure_fresh loop_init_def cfg_ex_def)
  obtain res where a: "acdc_calc Some ?rd [Fin 1, NaN, Fin 2, NaN] (l_vdc_atual (loop_init cfg_ex))
             = Inr res"
    and r: "Delta res = Fin 1000" "adj_dc res = Fin 10.005"
    by (simp add: acdc_calc_def idx_def ebind_def to_float_def np_mean_def np_sum_def fsub_def
        loop_init_def cfg_ex_def Let_def)
  have d: "fgt (fabs (Delta res)) (Fin 50)"
    by (simp add: r)
  have v: "vdc_nominal cfg_ex = Fin 10" "l_i (loop_init cfg_ex) = 0"
    "l_diff_acdc (loop_init cfg_ex) = []"
    by (simp_all add: cfg_ex_def loop_init_def)
  from discarded_repetition [OF c m a d] obtain s' where
    "repeticao Some cfg_ex (Fin 1000000) [Fin 1, NaN, Fin 2, NaN] (Fin 10) (loop_init cfg_ex) ?w
       = (Inr s', ?w1)"
    "l_i s' = 0" "l_diff_acdc s' = []" "l_vdc_atual s' = Fin 10.005"
    "ciclo_ac_of s' ?w1 = (Inr ([Fin 3, Fin 1.001], s'), ?w1)"
    by (auto simp add: r v)
  then show ?thesis
    by (intro exI [of _ s']) simp
qed


lemma fgt_never:
  "\<not> fgt NaN b" "\<not> fgt NInf b" "\<not> fgt a NaN" "\<not> fgt a PInf"
proof -
  show "\<not> fgt NaN b" by simp
  show "\<not> fgt NInf b" by (cases b) simp_all
  show "\<not> fgt a NaN" by (cases a) simp_all
  show "\<not> fgt a PInf" by (cases a) simp_all
qed

text \<open>
  Claim C10. The safety check on the DC voltage in the sampling loop fires exactly when
  the corrected voltage \<open>adj_dc\<close> compares greater than 1.1 of the nominal DC
  voltage. A correction that is NaN (as \<open>0/0\<close> gives, with \<open>n_Y = 0\<close> and equal AC
  and DC means) compares false: no error is raised, the pass returns with NaN as the
  applied DC voltage and the loop goes on from that state. Minus infinity never fires
  the check either, nor does any finite correction at or below 1.1 of a finite nominal
  voltage, however negative.
\<close>

theorem dc_bound_strict:
  assumes c: "ciclo_ac_of s w = (Inr (ciclo_ac, s1), w)"
      and m: "measure_cycle flt cfg freq (l_vdc_atual s) vac ciclo_ac w = (Inr rd, w1)"
      and a: "acdc_calc flt rd n_value (l_vdc_atual s) = Inr res"
  shows "((fst (repeticao flt cfg freq n_value vac s w) =
            Inl (NameError ''Tensao DC ajustada perigosamente alta!''))
          = fgt (adj_dc res) (fmul (Fin 1.1) (vdc_nominal cfg)))
       \<and> (if fgt (adj_dc res) (fmul (Fin 1.1) (vdc_nominal cfg)) then True
          else \<exists>s' w'. repeticao flt cfg freq n_value vac s w = (Inr s', w')
                 \<and> l_vdc_atual s' = adj_dc res
                 \<and> (if l_i s < repeticoes cfg
                     then sampling flt cfg freq n_value vac s w =
                          sampling flt cfg freq n_value vac s' w'
                     else True))
       \<and> (if adj_dc res = NaN \<or> adj_dc res = NInf
          then \<not> fgt (adj_dc res) (fmul (Fin 1.1) (vdc_nominal cfg)) else True)
       \<and> (\<forall>x vn. adj_dc res = Fin x \<and> vdc_nominal cfg = Fin vn \<and> x \<le> 1.1 * vn
             \<longrightarrow> \<not> fgt (adj_dc res) (fmul (Fin 1.1) (vdc_nominal cfg)))"
proof -
  have s1: "l_vdc_atual s1 = l_vdc_atual s"
    using ciclo_ac_of_first_measure [OF c] by simp
  note run = repeticao_run [OF c, of flt cfg freq vac rd w1 n_value res, unfolded s1, OF m a]
  show ?thesis
  proof (cases "fgt (adj_dc res) (fmul (Fin 1.1) (vdc_nominal cfg))")
    case True
    then show ?thesis
      using run by (auto simp: fgt_never split: if_splits)
  next
    case False
    then obtain s' w' where r: "repeticao flt cfg freq n_value vac s w = (Inr s', w')"
      and v: "l_vdc_atual s' = adj_dc res"
      using run by (cases "fgt (fabs (Delta res)) (Fin 50)") simp_all
    have "sampling flt cfg freq n_value vac s w = sampling flt cfg freq n_value vac s' w'"
      if "l_i s < repeticoes cfg"
      using that r by (subst sampling.simps) simp
    then show ?thesis
      using False r v by (auto simp: fgt_never)
  qed
qed

theorem dc_bound_strict_witness:
  "\<exists>s' w'. repeticao Some cfg_ex2 (Fin 1000000) [Fin 1, NaN, Fin 0, NaN] (Fin 10) (loop_init cfg_ex2)
             \<lparr>trace = [], feed = [Fin 3, Fin 1, Fin 2, Fin 1, Fin 3, Fin 1, Fin 2, Fin 1, Fin 3, Fin 1],
              registro = []\<rparr> = (Inr s', w')
     \<and> l_vdc_atual s' = NaN \<and> l_i s' = 1
     \<and> sampling Some cfg_ex2 (Fin 1000000) [Fin 1, NaN, Fin 0, NaN] (Fin 10) (loop_init cfg_ex2)
             \<lparr>trace = [], feed = [Fin 3, Fin 1, Fin 2, Fin 1, Fin 3, Fin 1, Fin 2, Fin 1, Fin 3, Fin 1],
              registro = []\<rparr>
         = sampling Some cfg_ex2 (Fin 1000000) [Fin 1, NaN, Fin 0, NaN] (Fin 10) s' w'
     \<and> fst (sampling Some cfg_ex2 (Fin 1000000) [Fin 1, NaN, Fin 0, NaN] (Fin 10) s' w')
         = Inl VisaIOError
     \<and> Source (SOUR_VOLT 1 NaN)
         \<in> set (trace (snd (sampling Some cfg_ex2 (Fin 1000000) [Fin 1, NaN, Fin 0, NaN] (Fin 10) s' w')))"
proof -
  let ?w = "\<lparr>trace = [], feed = [Fin 3, Fin 1, Fin 2, Fin 1, Fin 3, Fin 1, Fin 2, Fin 1, Fin 3, Fin 1],
            registro = []\<rparr> :: npfloat world"
  let ?t1 = "ev_measure_config (Fin 1000000) (Fin 10) (Fin 10) @ ev_fase cfg_ex2 ac
               @ ev_fase cfg_ex2 dc @ ev_fase cfg_ex2 ac @ ev_fase cfg_ex2 dc @ ev_fase cfg_ex2 ac"
  let ?w1 = "\<lparr>trace = ?t1, feed = [], registro = []\<rparr> :: npfloat world"
  let ?rd = "\<lparr>std_readings = [Fin 3, Fin 2, Fin 3, Fin 2, Fin 3],
             dut_readings = [Fin 1, Fin 1, Fin 1, Fin 1, Fin 1]\<rparr>"
  let ?nv = "[Fin 1, NaN, Fin 0, NaN]"
  have v: "vdc_nominal cfg_ex2 = Fin 10" "repeticoes cfg_ex2 = 2" "wait_time cfg_ex2 = 1"
    "l_i (loop_init cfg_ex2) = 0" "l_vdc_atual (loop_init cfg_ex2) = Fin 10"
    by (simp_all add: cfg_ex2_def cfg_ex_def loop_init_def)
  have c: "ciclo_ac_of (loop_init cfg_ex2) ?w =
             (Inr ([], (loop_init cfg_ex2)\<lparr>l_first_measure := False\<rparr>), ?w)"
    by (simp add: ciclo_ac_of_def loop_init_def io_run)
  have m: "measure_cycle Some cfg_ex2 (Fin 1000000) (l_vdc_atual (loop_init cfg_ex2)) (Fin 10) [] ?w
             = (Inr ?rd, ?w1)"
    by (simp add: measure_fresh v)
  obtain res where a: "acdc_calc Some ?rd ?nv (l_vdc_atual (loop_init cfg_ex2)) = Inr res"
    and r: "Delta res = Fin 0" "adj_dc res = NaN"
    by (simp add: acdc_calc_def idx_def ebind_def to_float_def np_mean_def np_sum_def fsub_def
        v Let_def)
  let ?s1 = "(loop_init cfg_ex2)\<lparr>l_first_measure := False, l_diff_acdc := [dif res],
               l_Delta := [Delta res], l_i := 1, l_readings := Some ?rd, l_vdc_atual := NaN\<rparr>"
  let ?w1' = "\<lparr>trace = ?t1, feed = [], registro = [RegLinha res (Fin 10)]\<rparr> :: npfloat world"
  have run1: "repeticao Some cfg_ex2 (Fin 1000000) ?nv (Fin 10) (loop_init cfg_ex2) ?w = (Inr ?s1, ?w1')"
    using repeticao_run [OF c, of Some cfg_ex2 "Fin 1000000" "Fin 10" ?rd ?w1 ?nv res] m a
    by (simp add: r v loop_init_def)
  have cont: "sampling Some cfg_ex2 (Fin 1000000) ?nv (Fin 10) (loop_init cfg_ex2) ?w =
              sampling Some cfg_ex2 (Fin 1000000) ?nv (Fin 10) ?s1 ?w1'"
    using dc_bound_strict [OF c m a] by (simp add: r v run1)
  have run2: "sampling Some cfg_ex2 (Fin 1000000) ?nv (Fin 10) ?s1 ?w1' =
     (Inl VisaIOError,
      \<lparr>trace = ?t1 @ ev_measure_config (Fin 1000000) NaN (Fin 10)
                @ [Switch dc, Sleep 10, Dvm ''SENS:CHAN 2'', Dvm '':SENS:VOLT:CHAN2:RANG 0.01'',
                   Dvm ''INIT:CONT OFF'', Read],
       feed = [], registro = [RegLinha res (Fin 10)]\<rparr>)"
    by (subst sampling.simps)
       (simp add: v loop_init_def repeticao_def ciclo_ac_of_def measure_cycle_def fase_def
          ler_par_def ler_std_def dvm_write_def dvm_query_def source_write_def sw_write_raw_def
          espera_def print_std_def print_dut_def to_float_def idx_def io_run
          ev_measure_config_def)
  show ?thesis
    apply (intro exI [of _ ?s1] exI [of _ ?w1'] conjI)
         apply (rule run1)
        apply simp
       apply simp
      apply (rule cont)
     apply (simp only: run2 fst_conv)
    apply (simp only: run2 snd_conv)
    apply (simp add: ev_measure_config_def)
    done
qed


section \<open>Properties of the sampling loop and of a frequency point\<close>

lemma repeticao_Inr:
  assumes "repeticao flt cfg freq n_value vac s w = (Inr s', w')"
  obtains c s1 rd w1 res where
    "ciclo_ac_of s w = (Inr (c, s1), w)"
    "measure_cycle flt cfg freq (l_vdc_atual s1) vac c w = (Inr rd, w1)"
    "acdc_calc flt rd n_value (l_vdc_atual s1) = Inr res"
proof -
  obtain r0 w0 where c0: "ciclo_ac_of s w = (r0, w0)" by (cases "ciclo_ac_of s w")
  then have w0: "w0 = w" by (rule ciclo_ac_of_world)
  from assms c0 obtain c s1 where r0: "r0 = Inr (c, s1)"
    by (cases r0) (auto simp: repeticao_def bnd_run)
  obtain r1 w1 where m0: "measure_cycle flt cfg freq (l_vdc_atual s1) vac c w = (r1, w1)"
    by (cases "measure_cycle flt cfg freq (l_vdc_atual s1) vac c w")
  from assms c0 r0 w0 m0 obtain rd where r1: "r1 = Inr rd"
    by (cases r1) (auto simp: repeticao_def bnd_run)
  from assms c0 r0 w0 m0 r1 obtain res where "acdc_calc flt rd n_value (l_vdc_atual s1) = Inr res"
    by (cases "acdc_calc flt rd n_value (l_vdc_atual s1)") (auto simp: repeticao_def io_run)
  with c0 r0 w0 m0 r1 show ?thesis by (intro that) auto
qed

lemma repeticao_step:
  assumes "repeticao flt cfg freq n_value vac s w = (Inr s', w')"
  obtains res where
    "resultado flt cfg freq n_value vac s w = Some res"
    "l_diff_acdc s' = l_diff_acdc s @ (if accepted res then [dif res] else [])"
    "l_i s' = l_i s + (if accepted res then 1 else 0)"
proof -
  from assms obtain c s1 rd w1 res where
    c: "ciclo_ac_of s w = (Inr (c, s1), w)" and
    m: "measure_cycle flt cfg freq (l_vdc_atual s1) vac c w = (Inr rd, w1)" and
    a: "acdc_calc flt rd n_value (l_vdc_atual s1) = Inr res"
    by (rule repeticao_Inr)
  have s1: "l_i s1 = l_i s" "l_diff_acdc s1 = l_diff_acdc s"
    using ciclo_ac_of_first_measure [OF c] by simp_all
  have r: "resultado flt cfg freq n_value vac s w = Some res"
    by (simp add: resultado_def c m a)
  have "l_diff_acdc s' = l_diff_acdc s @ (if accepted res then [dif res] else [])
      \<and> l_i s' = l_i s + (if accepted res then 1 else 0)"
    using assms repeticao_run [OF c m a]
    by (auto simp: accepted_def s1 split: if_splits)
  with r show ?thesis by (intro that) auto
qed

lemma sampling_accepts:
  "sampling flt cfg freq n_value vac s w = (Inr s', w') \<Longrightarrow>
     l_diff_acdc s' =
       l_diff_acdc s @ map dif (filter accepted (results_of flt cfg freq n_value vac s w))
     \<and> l_i s' = l_i s + int (length (filter accepted (results_of flt cfg freq n_value vac s w)))
     \<and> l_i s' = max (l_i s) (repeticoes cfg)"
proof (induction flt cfg freq n_value vac s w rule: sampling.induct)
  case (1 flt cfg freq n_value vac s w)
  show ?case
  proof (cases "l_i s < repeticoes cfg")
    case False
    then show ?thesis
      using "1.prems" by (simp add: sampling.simps results_of.simps)
  next
    case True
    obtain r1 w1 where p: "repeticao flt cfg freq n_value vac s w = (r1, w1)"
      by (cases "repeticao flt cfg freq n_value vac s w")
    with True "1.prems" obtain s1 where r1: "r1 = Inr s1"
      and rest: "sampling flt cfg freq n_value vac s1 w1 = (Inr s', w')"
      by (cases r1) (auto simp: sampling.simps)
    from p r1 obtain res where
      res: "resultado flt cfg freq n_value vac s w = Some res"
      "l_diff_acdc s1 = l_diff_acdc s @ (if accepted res then [dif res] else [])"
      "l_i s1 = l_i s + (if accepted res then 1 else 0)"
      by (auto elim: repeticao_step)
    have unf: "results_of flt cfg freq n_value vac s w =
                 res # results_of flt cfg freq n_value vac s1 w1"
      using True p r1 res(1) by (subst results_of.simps) simp
    have IH: "l_diff_acdc s' =
       l_diff_acdc s1 @ map dif (filter accepted (results_of flt cfg freq n_value vac s1 w1))
     \<and> l_i s' = l_i s1 + int (length (filter accepted (results_of flt cfg freq n_value vac s1 w1)))
     \<and> l_i s' = max (l_i s1) (repeticoes cfg)"
      using "1.IH" [OF True p [symmetric] r1 rest] .
    then show ?thesis
      using res(2,3) True by (auto simp add: unf)
  qed
qed

lemma registro_frequencia_run:
  "registro_frequencia value n_arr vac w =
     (Inr (), w\<lparr>registro := registro w @ [RegFrequencia value n_arr vac]\<rparr>)"
  by (simp add: registro_frequencia_def)

lemma registro_media_run:
  "registro_media ds w =
     (Inr (), w\<lparr>registro := registro w @ [RegMedia (np_mean ds) (np_std_ddof1 ds)]\<rparr>)"
  by (simp add: registro_media_def)

lemma ponto_run:
  assumes fv: "flt value = Some fv"
      and n: "n_measure flt cfg (fmul fv (Fin 1000000)) 4 w = (Inr n_arr, w1)"
      and e: "equilibrio flt cfg (fmul fv (Fin 1000000)) w1 = (Inr vac, w2)"
  shows "ponto flt cfg value w =
     (if fgt vac (fmul (Fin 1.1) (vac_nominal cfg))
      then (Inl (NameError ''Tensao AC ajustada perigosamente alta!''),
            w2\<lparr>registro := registro w2 @ [RegFrequencia value n_arr vac]\<rparr>)
      else case sampling flt cfg (fmul fv (Fin 1000000)) (n_results n_arr) vac (loop_init cfg)
                  (w2\<lparr>registro := registro w2 @ [RegFrequencia value n_arr vac]\<rparr>) of
             (Inl e, w') \<Rightarrow> (Inl e, w')
           | (Inr s, w') \<Rightarrow>
               (Inr (), w'\<lparr>registro := registro w' @
                             [RegMedia (np_mean (l_diff_acdc s)) (np_std_ddof1 (l_diff_acdc s))]\<rparr>))"
  by (simp add: ponto_def io_run to_float_def fv n e registro_frequencia_run registro_media_run
      split: prod.split sum.split)

lemma repeticao_fresh:
  assumes first: "l_first_measure s"
      and num: "list_all (\<lambda>r. flt r \<noteq> None) [s0, d0, s1, d1, s2, d2, s3, d3, s4, d4]"
      and a: "acdc_calc flt \<lparr>std_readings = [s0, s1, s2, s3, s4],
                               dut_readings = [d0, d1, d2, d3, d4]\<rparr> n_value (l_vdc_atual s)
              = Inr res"
  shows "repeticao flt cfg freq n_value vac s
           \<lparr>trace = t, feed = s0 # d0 # s1 # d1 # s2 # d2 # s3 # d3 # s4 # d4 # rest,
            registro = g\<rparr> =
         (if fgt (adj_dc res) (fmul (Fin 1.1) (vdc_nominal cfg))
          then Inl (NameError ''Tensao DC ajustada perigosamente alta!'')
          else Inr (after_pass s \<lparr>std_readings = [s0, s1, s2, s3, s4],
                                   dut_readings = [d0, d1, d2, d3, d4]\<rparr> res),
          \<lparr>trace = t @ ev_cycle cfg freq (l_vdc_atual s) vac True, feed = rest,
           registro = g @ linha res (l_vdc_atual s)\<rparr>)"
proof -
  let ?w = "\<lparr>trace = t, feed = s0 # d0 # s1 # d1 # s2 # d2 # s3 # d3 # s4 # d4 # rest,
            registro = g\<rparr>"
  have c: "ciclo_ac_of s ?w = (Inr ([], s\<lparr>l_first_measure := False\<rparr>), ?w)"
    using first by (simp add: ciclo_ac_of_def io_run)
  show ?thesis
    using repeticao_run [OF c, of flt cfg freq vac _ _ n_value res] a
    by (simp add: measure_fresh [OF num] after_pass_def linha_def accepted_def ev_cycle_def)
qed

lemma repeticao_carry:
  assumes nf: "\<not> l_first_measure s"
      and rd: "l_readings s = Some rd0" "idx (std_readings rd0) 4 = Inr s0"
              "idx (dut_readings rd0) 4 = Inr d0"
      and num: "flt s0 \<noteq> None" "flt d0 \<noteq> None"
               "list_all (\<lambda>r. flt r \<noteq> None) [s1, d1, s2, d2, s3, d3, s4, d4]"
      and a: "acdc_calc flt \<lparr>std_readings = [s0, s1, s2, s3, s4],
                               dut_readings = [d0, d1, d2, d3, d4]\<rparr> n_value (l_vdc_atual s)
              = Inr res"
  shows "repeticao flt cfg freq n_value vac s
           \<lparr>trace = t, feed = s1 # d1 # s2 # d2 # s3 # d3 # s4 # d4 # rest, registro = g\<rparr> =
         (if fgt (adj_dc res) (fmul (Fin 1.1) (vdc_nominal cfg))
          then Inl (NameError ''Tensao DC ajustada perigosamente alta!'')
          else Inr (after_pass s \<lparr>std_readings = [s0, s1, s2, s3, s4],
                                   dut_readings = [d0, d1, d2, d3, d4]\<rparr> res),
          \<lparr>trace = t @ ev_cycle cfg freq (l_vdc_atual s) vac False, feed = rest,
           registro = g @ linha res (l_vdc_atual s)\<rparr>)"
proof -
  let ?w = "\<lparr>trace = t, feed = s1 # d1 # s2 # d2 # s3 # d3 # s4 # d4 # rest, registro = g\<rparr>"
  have c: "ciclo_ac_of s ?w = (Inr ([s0, d0], s), ?w)"
    using nf rd by (simp add: ciclo_ac_of_def io_run)
  have s: "after_pass s rd res =
      (if accepted res
       then s\<lparr>l_diff_acdc := l_diff_acdc s @ [dif res], l_Delta := l_Delta s @ [Delta res],
              l_i := l_i s + 1\<rparr>
       else s)\<lparr>l_readings := Some rd, l_vdc_atual := adj_dc res\<rparr>" for rd
    using nf by (cases s) (simp add: after_pass_def)
  show ?thesis
    using repeticao_run [OF c, of flt cfg freq vac _ _ n_value res] a
    by (simp add: measure_carry [OF num] s linha_def accepted_def ev_cycle_def)
qed

lemma resultado_fresh:
  assumes first: "l_first_measure s"
      and num: "list_all (\<lambda>r. flt r \<noteq> None) [s0, d0, s1, d1, s2, d2, s3, d3, s4, d4]"
      and a: "acdc_calc flt \<lparr>std_readings = [s0, s1, s2, s3, s4],
                               dut_readings = [d0, d1, d2, d3, d4]\<rparr> n_value (l_vdc_atual s)
              = Inr res"
  shows "resultado flt cfg freq n_value vac s
           \<lparr>trace = t, feed = s0 # d0 # s1 # d1 # s2 # d2 # s3 # d3 # s4 # d4 # rest,
            registro = g\<rparr> = Some res"
  using first a by (simp add: resultado_def ciclo_ac_of_def io_run measure_fresh [OF num])

lemma resultado_carry:
  assumes nf: "\<not> l_first_measure s"
      and rd: "l_readings s = Some rd0" "idx (std_readings rd0) 4 = Inr s0"
              "idx (dut_readings rd0) 4 = Inr d0"
      and num: "flt s0 \<noteq> None" "flt d0 \<noteq> None"
               "list_all (\<lambda>r. flt r \<noteq> None) [s1, d1, s2, d2, s3, d3, s4, d4]"
      and a: "acdc_calc flt \<lparr>std_readings = [s0, s1, s2, s3, s4],
                               dut_readings = [d0, d1, d2, d3, d4]\<rparr> n_value (l_vdc_atual s)
              = Inr res"
  shows "resultado flt cfg freq n_value vac s
           \<lparr>trace = t, feed = s1 # d1 # s2 # d2 # s3 # d3 # s4 # d4 # rest, registro = g\<rparr>
         = Some res"
  using nf rd a by (simp add: resultado_def ciclo_ac_of_def io_run measure_carry [OF num])

lemma sampling_step:
  "l_i s < repeticoes cfg \<Longrightarrow> repeticao flt cfg freq n_value vac s w = (Inr s1, w1) \<Longrightarrow>
     sampling flt cfg freq n_value vac s w = sampling flt cfg freq n_value vac s1 w1"
  by (subst sampling.simps) simp

lemma sampling_raise:
  "l_i s < repeticoes cfg \<Longrightarrow> repeticao flt cfg freq n_value vac s w = (Inl e, w1) \<Longrightarrow>
     sampling flt cfg freq n_value vac s w = (Inl e, w1)"
  by (subst sampling.simps) simp

lemma sampling_stop:
  "\<not> l_i s < repeticoes cfg \<Longrightarrow> sampling flt cfg freq n_value vac s w = (Inr s, w)"
  by (subst sampling.simps) simp

lemma results_of_step:
  "l_i s < repeticoes cfg \<Longrightarrow> repeticao flt cfg freq n_value vac s w = (Inr s1, w1) \<Longrightarrow>
   resultado flt cfg freq n_value vac s w = Some res \<Longrightarrow>
     results_of flt cfg freq n_value vac s w = res # results_of flt cfg freq n_value vac s1 w1"
  by (subst results_of.simps) simp

lemma results_of_stop:
  "\<not> l_i s < repeticoes cfg \<Longrightarrow> results_of flt cfg freq n_value vac s w = []"
  by (subst results_of.simps) simp

lemma after_pass_sel:
  "\<not> l_first_measure (after_pass s rd res)"
  "l_vdc_atual (after_pass s rd res) = adj_dc res"
  "l_readings (after_pass s rd res) = Some rd"
  "l_i (after_pass s rd res) = l_i s + (if accepted res then 1 else 0)"
  "l_diff_acdc (after_pass s rd res) = l_diff_acdc s @ (if accepted res then [dif res] else [])"
  by (simp_all add: after_pass_def)

text \<open>
  Claim C8. When a frequency point completes, the summary row it writes last holds
  \<open>numpy.mean\<close> and \<open>numpy.std(ddof=1)\<close> of the list \<open>ds\<close> of the differences of
  exactly the accepted passes of its loop, in the order of the passes: \<open>results_of\<close>
  lists the result of every pass, and \<open>ds\<close> keeps those that are not discarded. There
  are as many as the repetition target. For finite differences, two or more, the two
  values are the sample mean and the unbiased sample standard deviation of \<open>ds\<close>.
\<close>

theorem summary_of_accepted:
  assumes fv: "flt value = Some fv"
      and n: "n_measure flt cfg (fmul fv (Fin 1000000)) 4 w = (Inr n_arr, w1)"
      and e: "equilibrio flt cfg (fmul fv (Fin 1000000)) w1 = (Inr vac, w2)"
      and fin: "ponto flt cfg value w = (Inr (), w')"
  shows "let ds = map dif (filter accepted
                    (results_of flt cfg (fmul fv (Fin 1000000)) (n_results n_arr) vac (loop_init cfg)
                       (w2\<lparr>registro := registro w2 @ [RegFrequencia value n_arr vac]\<rparr>)))
         in last (registro w') = RegMedia (np_mean ds) (np_std_ddof1 ds)
          \<and> int (length ds) = max 0 (repeticoes cfg)
          \<and> (\<forall>xs. ds = map Fin xs \<and> 2 \<le> length xs \<longrightarrow>
                np_mean ds = Fin (sample_mean xs) \<and> np_std_ddof1 ds = Fin (sample_std xs))"
proof -
  let ?w3 = "w2\<lparr>registro := registro w2 @ [RegFrequencia value n_arr vac]\<rparr>"
  let ?rs = "results_of flt cfg (fmul fv (Fin 1000000)) (n_results n_arr) vac (loop_init cfg) ?w3"
  obtain r4 w4 where
    smp: "sampling flt cfg (fmul fv (Fin 1000000)) (n_results n_arr) vac (loop_init cfg) ?w3 = (r4, w4)"
    by (cases "sampling flt cfg (fmul fv (Fin 1000000)) (n_results n_arr) vac (loop_init cfg) ?w3")
  from fin ponto_run [OF fv n e] smp obtain s where r4: "r4 = Inr s"
    and w': "w' = w4\<lparr>registro := registro w4 @
                   [RegMedia (np_mean (l_diff_acdc s)) (np_std_ddof1 (l_diff_acdc s))]\<rparr>"
    by (cases r4) (auto split: if_splits)
  have acc: "l_diff_acdc s = map dif (filter accepted ?rs)"
    "l_i s = int (length (filter accepted ?rs))" "l_i s = max 0 (repeticoes cfg)"
    using sampling_accepts [OF smp [unfolded r4]] by (simp_all add: loop_init_def)
  have real: "np_mean (map Fin xs) = Fin (sample_mean xs) \<and>
              np_std_ddof1 (map Fin xs) = Fin (sample_std xs)" if "2 \<le> length xs" for xs
  proof -
    from that have "xs \<noteq> []" by auto
    with that show ?thesis
      by (simp add: np_mean_Fin np_std_ddof1_Fin sample_mean_def sample_std_def)
  qed
  show ?thesis
    unfolding Let_def acc(1) [symmetric]
    using acc real by (auto simp: w')
qed

theorem summary_of_accepted_witness:
  "\<exists>w'. ponto Some cfg_ex2 (Fin 1)
          \<lparr>trace = [],
           feed = [Fin 1, Fin 1, Fin 1.01, Fin 1.02, Fin 0.99, Fin 0.98,
                   Fin 1.01, Fin 1.02, Fin 0.99, Fin 0.98,
                   Fin 1.5, Fin 1, Fin 2,
                   Fin 3, Fin 1, Fin 2, Fin 1, Fin 3, Fin 1, Fin 2, Fin 1, Fin 3, Fin 1,
                   Fin 2, Fin 1, Fin 3, Fin 1.003, Fin 2, Fin 1, Fin 3, Fin 1.003,
                   Fin 4, Fin 1.001, Fin 5, Fin 1, Fin 4, Fin 1.001, Fin 4, Fin 1],
           registro = [Cabecalho]\<rparr> = (Inr (), w')
      \<and> last (registro w') = RegMedia (Fin 250000) (Fin (sample_std [500000, 0]))"
proof -
  let ?F = "Fin 1000000"
  let ?P3 = "[Fin 4, Fin (1001 / 1000), Fin 5, Fin 1, Fin 4, Fin (1001 / 1000), Fin 4, Fin 1] :: npfloat list"
  let ?P2 = "Fin 2 # Fin 1 # Fin 3 # Fin (1003 / 1000) # Fin 2 # Fin 1 # Fin 3 # Fin (1003 / 1000) # ?P3"
  let ?P1 = "Fin 3 # Fin 1 # Fin 2 # Fin 1 # Fin 3 # Fin 1 # Fin 2 # Fin 1 # Fin 3 # Fin 1 # ?P2"
  let ?FE = "Fin 1.5 # Fin 1 # Fin 2 # ?P1"
  let ?XS = "[Fin 1.01, Fin 0.99, Fin 1.01, Fin 0.99] :: npfloat list"
  let ?YS = "[Fin 1.02, Fin 0.98, Fin 1.02, Fin 0.98] :: npfloat list"
  let ?w0 = "\<lparr>trace = [], feed = Fin 1 # Fin 1 # interleave ?XS ?YS @ ?FE,
             registro = [Cabecalho]\<rparr> :: npfloat world"
  let ?nv = "[Fin 1, Fin 0, Fin 2, Fin 0]"
  let ?rd1 = "\<lparr>std_readings = [Fin 3, Fin 2, Fin 3, Fin 2, Fin 3],
              dut_readings = [Fin 1, Fin 1, Fin 1, Fin 1, Fin 1]\<rparr> :: npfloat readings"
  let ?rd2 = "\<lparr>std_readings = [Fin 3, Fin 2, Fin 3, Fin 2, Fin 3],
              dut_readings = [Fin 1, Fin 1, Fin (1003 / 1000), Fin 1, Fin (1003 / 1000)]\<rparr> :: npfloat readings"
  let ?rd3 = "\<lparr>std_readings = [Fin 3, Fin 4, Fin 5, Fin 4, Fin 4],
              dut_readings = [Fin (1003 / 1000), Fin (1001 / 1000), Fin 1, Fin (1001 / 1000), Fin 1]\<rparr> :: npfloat readings"
  have v: "vdc_nominal cfg_ex2 = Fin 10" "vac_nominal cfg_ex2 = Fin 10" "repeticoes cfg_ex2 = 2"
    by (simp_all add: cfg_ex2_def cfg_ex_def)
  have u: "[1..4::int] = [1, 2, 3, 4]"
    by (simp add: upto.simps)
  text \<open>The linearity estimation.\<close>
  let ?t1 = "ev_n_baseline cfg_ex2 ?F @ concat (map (ev_n_iter cfg_ex2) [1, 2, 3, 4]) @ [Switch ac]"
  let ?w1 = "\<lparr>trace = ?t1, feed = ?FE, registro = [Cabecalho]\<rparr> :: npfloat world"
  have "n_measure Some cfg_ex2 ?F 4 ?w0 =
          (n_calc Some (Fin 1 # ?XS) (Fin 1 # ?YS) (map n_weight [1, 2, 3, 4]), ?w1)"
    using n_measure_run [of ?XS 4 ?YS Some "Fin 1" "Fin 1" cfg_ex2 ?F "[]" ?FE "[Cabecalho]"]
    by (simp add: u)
  moreover have "\<exists>na. n_calc Some (Fin 1 # ?XS) (Fin 1 # ?YS) (map n_weight [1, 2, 3, 4]) = Inr na
                    \<and> n_results na = ?nv"
    using n_calc_run [of Some "Fin 1" "Fin 1" "Fin 1" "Fin 1" ?XS ?XS ?YS ?YS
        "map n_weight [1, 2, 3, 4]"]
    by (simp add: n_weight_def fsub_def np_mean_def np_sum_def np_std_ddof1_def)
  ultimately obtain na where n: "n_measure Some cfg_ex2 ?F 4 ?w0 = (Inr na, ?w1)"
    and nr: "n_results na = ?nv"
    by auto
  text \<open>The equilibrium voltage.\<close>
  let ?t2 = "?t1 @ ev_equilibrio cfg_ex2 ?F"
  let ?w2 = "\<lparr>trace = ?t2, feed = ?P1, registro = [Cabecalho]\<rparr> :: npfloat world"
  have e: "equilibrio Some cfg_ex2 ?F ?w1 = (Inr (Fin 10), ?w2)"
    by (simp add: equilibrio_run [of Some _ "Fin 1.5" _ "Fin 1" _ "Fin 2"] v np_interp_def fsub_def)
  let ?g3 = "[Cabecalho, RegFrequencia (Fin 1) na (Fin 10)]"
  let ?w3 = "\<lparr>trace = ?t2, feed = ?P1, registro = ?g3\<rparr> :: npfloat world"
  text \<open>The three passes of the loop.\<close>
  let ?s0 = "loop_init cfg_ex2 :: npfloat lstate"
  have s0: "l_first_measure ?s0" "l_vdc_atual ?s0 = Fin 10" "l_i ?s0 = 0" "l_diff_acdc ?s0 = []"
    by (simp_all add: loop_init_def v)
  obtain res1 where a1: "acdc_calc Some ?rd1 ?nv (l_vdc_atual ?s0) = Inr res1"
    and r1: "dif res1 = Fin 500000" "Delta res1 = Fin 0" "adj_dc res1 = Fin 10"
    by (simp add: acdc_calc_def idx_def ebind_def to_float_def np_mean_def np_sum_def fsub_def
        s0 Let_def)
  let ?s1 = "after_pass ?s0 ?rd1 res1"
  have s1: "\<not> l_first_measure ?s1" "l_vdc_atual ?s1 = Fin 10" "l_i ?s1 = 1"
    "l_diff_acdc ?s1 = [Fin 500000]" "l_readings ?s1 = Some ?rd1"
    by (simp_all add: after_pass_sel accepted_def r1 s0)
  let ?t4 = "?t2 @ ev_cycle cfg_ex2 ?F (Fin 10) (Fin 10) True"
  let ?w4 = "\<lparr>trace = ?t4, feed = ?P2, registro = ?g3 @ [RegLinha res1 (Fin 10)]\<rparr> :: npfloat world"
  have p1: "repeticao Some cfg_ex2 ?F ?nv (Fin 10) ?s0 ?w3 = (Inr ?s1, ?w4)"
    using repeticao_fresh [OF s0(1) _ a1, of cfg_ex2 ?F "Fin 10" ?t2 ?P2 ?g3]
    by (simp add: r1 v s0 linha_def accepted_def)
  have q1: "resultado Some cfg_ex2 ?F ?nv (Fin 10) ?s0 ?w3 = Some res1"
    using resultado_fresh [OF s0(1) _ a1, of cfg_ex2 ?F "Fin 10" ?t2 ?P2 ?g3]
    by simp
  obtain res2 where a2: "acdc_calc Some ?rd2 ?nv (l_vdc_atual ?s1) = Inr res2"
    and r2: "Delta res2 = Fin 2000" "adj_dc res2 = Fin (1001 / 100)"
    by (simp add: acdc_calc_def idx_def ebind_def to_float_def np_mean_def np_sum_def fsub_def
        s1 Let_def)
  let ?s2 = "after_pass ?s1 ?rd2 res2"
  have s2: "\<not> l_first_measure ?s2" "l_vdc_atual ?s2 = Fin (1001 / 100)" "l_i ?s2 = 1"
    "l_diff_acdc ?s2 = [Fin 500000]" "l_readings ?s2 = Some ?rd2"
    by (simp_all add: after_pass_sel accepted_def r1 r2 s0)
  let ?t5 = "?t4 @ ev_cycle cfg_ex2 ?F (Fin 10) (Fin 10) False"
  let ?w5 = "\<lparr>trace = ?t5, feed = ?P3, registro = ?g3 @ [RegLinha res1 (Fin 10)]\<rparr> :: npfloat world"
  have p2: "repeticao Some cfg_ex2 ?F ?nv (Fin 10) ?s1 ?w4 = (Inr ?s2, ?w5)"
    using repeticao_carry [OF s1(1) s1(5) _ _ _ _ _ a2, where cfg = cfg_ex2 and freq = ?F
        and vac = "Fin 10" and t = ?t4 and rest = ?P3 and g = "?g3 @ [RegLinha res1 (Fin 10)]"]
    by (simp add: r2 v s1 linha_def accepted_def idx_def)
  have q2: "resultado Some cfg_ex2 ?F ?nv (Fin 10) ?s1 ?w4 = Some res2"
    using resultado_carry [OF s1(1) s1(5) _ _ _ _ _ a2, where cfg = cfg_ex2 and freq = ?F
        and vac = "Fin 10" and t = ?t4 and rest = ?P3 and g = "?g3 @ [RegLinha res1 (Fin 10)]"]
    by (simp add: idx_def)
  obtain res3 where a3: "acdc_calc Some ?rd3 ?nv (l_vdc_atual ?s2) = Inr res3"
    and r3: "dif res3 = Fin 0" "Delta res3 = Fin 0" "adj_dc res3 = Fin (1001 / 100)"
    by (simp add: acdc_calc_def idx_def ebind_def to_float_def np_mean_def np_sum_def fsub_def
        s2 Let_def)
  let ?s3 = "after_pass ?s2 ?rd3 res3"
  have s3: "l_i ?s3 = 2" "l_diff_acdc ?s3 = [Fin 500000, Fin 0]"
    by (simp_all add: after_pass_sel accepted_def r1 r2 r3 s0)
  let ?t6 = "?t5 @ ev_cycle cfg_ex2 ?F (Fin (1001 / 100)) (Fin 10) False"
  let ?g6 = "?g3 @ [RegLinha res1 (Fin 10), RegLinha res3 (Fin (1001 / 100))]"
  let ?w6 = "\<lparr>trace = ?t6, feed = [], registro = ?g6\<rparr> :: npfloat world"
  have p3: "repeticao Some cfg_ex2 ?F ?nv (Fin 10) ?s2 ?w5 = (Inr ?s3, ?w6)"
    using repeticao_carry [OF s2(1) s2(5) _ _ _ _ _ a3, where cfg = cfg_ex2 and freq = ?F
        and vac = "Fin 10" and t = ?t5 and rest = "[]" and g = "?g3 @ [RegLinha res1 (Fin 10)]"]
    by (simp add: r3 v s2 linha_def accepted_def idx_def)
  have q3: "resultado Some cfg_ex2 ?F ?nv (Fin 10) ?s2 ?w5 = Some res3"
    using resultado_carry [OF s2(1) s2(5) _ _ _ _ _ a3, where cfg = cfg_ex2 and freq = ?F
        and vac = "Fin 10" and t = ?t5 and rest = "[]" and g = "?g3 @ [RegLinha res1 (Fin 10)]"]
    by (simp add: idx_def)
  have "sampling Some cfg_ex2 ?F ?nv (Fin 10) ?s0 ?w3 =
          sampling Some cfg_ex2 ?F ?nv (Fin 10) ?s1 ?w4"
    by (rule sampling_step [OF _ p1]) (simp add: s0 v)
  also have "\<dots> = sampling Some cfg_ex2 ?F ?nv (Fin 10) ?s2 ?w5"
    by (rule sampling_step [OF _ p2]) (simp add: s1 v)
  also have "\<dots> = sampling Some cfg_ex2 ?F ?nv (Fin 10) ?s3 ?w6"
    by (rule sampling_step [OF _ p3]) (simp add: s2 v)
  also have "\<dots> = (Inr ?s3, ?w6)"
    by (rule sampling_stop) (simp add: s3 v)
  finally have smp: "sampling Some cfg_ex2 ?F ?nv (Fin 10) ?s0 ?w3 = (Inr ?s3, ?w6)" .
  have "results_of Some cfg_ex2 ?F ?nv (Fin 10) ?s0 ?w3 =
          res1 # results_of Some cfg_ex2 ?F ?nv (Fin 10) ?s1 ?w4"
    by (rule results_of_step [OF _ p1 q1]) (simp add: s0 v)
  also have "results_of Some cfg_ex2 ?F ?nv (Fin 10) ?s1 ?w4 =
          res2 # results_of Some cfg_ex2 ?F ?nv (Fin 10) ?s2 ?w5"
    by (rule results_of_step [OF _ p2 q2]) (simp add: s1 v)
  also have "results_of Some cfg_ex2 ?F ?nv (Fin 10) ?s2 ?w5 =
          res3 # results_of Some cfg_ex2 ?F ?nv (Fin 10) ?s3 ?w6"
    by (rule results_of_step [OF _ p3 q3]) (simp add: s2 v)
  also have "results_of Some cfg_ex2 ?F ?nv (Fin 10) ?s3 ?w6 = []"
    by (rule results_of_stop) (simp add: s3 v)
  finally have rs: "results_of Some cfg_ex2 ?F ?nv (Fin 10) ?s0 ?w3 = [res1, res2, res3]" .
  let ?w7 = "\<lparr>trace = ?t6, feed = [],
             registro = ?g6 @ [RegMedia (np_mean [Fin 500000, Fin 0])
                                 (np_std_ddof1 [Fin 500000, Fin 0])]\<rparr> :: npfloat world"
  have fin: "ponto Some cfg_ex2 (Fin 1) ?w0 = (Inr (), ?w7)"
    using ponto_run [of Some "Fin 1" "Fin 1" cfg_ex2 ?w0 na ?w1 "Fin 10" ?w2] n e smp
    by (simp add: nr v s3)
  let ?DS = "map dif (filter accepted
               (results_of Some cfg_ex2 (fmul (Fin 1) (Fin 1000000)) (n_results na) (Fin 10)
                  (loop_init cfg_ex2)
                  (?w2\<lparr>registro := registro ?w2 @ [RegFrequencia (Fin 1) na (Fin 10)]\<rparr>)))"
  have ds: "?DS = map Fin [500000, 0]"
    using rs by (simp add: nr accepted_def r1 r2 r3)
  have "last (registro ?w7) = RegMedia (np_mean ?DS) (np_std_ddof1 ?DS)
      \<and> int (length ?DS) = max 0 (repeticoes cfg_ex2)
      \<and> (\<forall>xs. ?DS = map Fin xs \<and> 2 \<le> length xs \<longrightarrow>
            np_mean ?DS = Fin (sample_mean xs) \<and> np_std_ddof1 ?DS = Fin (sample_std xs))"
    using summary_of_accepted [of Some "Fin 1" "Fin 1" cfg_ex2 ?w0 na ?w1 "Fin 10" ?w2 ?w7]
      n e fin
    unfolding Let_def by simp
  then have A: "last (registro ?w7) = RegMedia (np_mean ?DS) (np_std_ddof1 ?DS)"
    and B: "\<forall>xs. ?DS = map Fin xs \<and> 2 \<le> length xs \<longrightarrow>
            np_mean ?DS = Fin (sample_mean xs) \<and> np_std_ddof1 ?DS = Fin (sample_std xs)"
    by blast+
  from B ds have "np_mean ?DS = Fin (sample_mean [500000, 0])
      \<and> np_std_ddof1 ?DS = Fin (sample_std [500000, 0])"
    by (elim allE [of _ "[500000, 0]"]) simp
  with A have "last (registro ?w7) = RegMedia (Fin 250000) (Fin (sample_std [500000, 0]))"
    by (simp add: sample_mean_def)
  with fin show ?thesis
    by (simp add: interleave_def)
qed


section \<open>Properties of the run\<close>

lemma thn_assoc: "thn (thn a b) c = thn a (thn b c)"
  by (rule ext) (simp add: thn_run split: prod.split sum.split)

lemma main_try_startup:
  "main_try flt cfg = thn (startup cfg) (thn (for_freq flt cfg (freq_array cfg)) stop_instruments)"
  by (simp add: main_try_def startup_def thn_assoc)

lemma stop_instruments_run:
  "stop_instruments w = (Inr (), w\<lparr>trace := trace w @ ev_stop\<rparr>)"
  by (simp add: stop_instruments_def sw_write_raw_def espera_def source_write_def emit_def
      thn_run ev_stop_def)

lemma for_freq_append:
  "for_freq flt cfg pre w0 = (Inr (), w) \<Longrightarrow>
     for_freq flt cfg (pre @ rest) w0 = for_freq flt cfg rest w"
proof (induction pre arbitrary: w0)
  case Nil
  then show ?case by (simp add: ret_run)
next
  case (Cons a pre)
  obtain r wa where p: "ponto flt cfg a w0 = (r, wa)"
    by (cases "ponto flt cfg a w0")
  with Cons.prems obtain u where r: "r = Inr u" and rest: "for_freq flt cfg pre wa = (Inr (), w)"
    by (cases r) (auto simp: thn_run)
  show ?case
    using Cons.IH [OF rest] by (simp add: thn_run p r)
qed

lemma main_raises:
  assumes fr: "freq_array cfg = pre @ value # post"
      and st: "startup cfg wi = (Inr (), w0)"
      and pre: "for_freq flt cfg pre w0 = (Inr (), w)"
      and p: "ponto flt cfg value w = (Inl e, wE)"
  shows "main_try flt cfg wi = (Inl e, wE)"
    and "main flt cfg wi = (Inr (), wE\<lparr>trace := trace wE @ ev_stop\<rparr>)"
proof -
  have "for_freq flt cfg (freq_array cfg) w0 = (Inl e, wE)"
    unfolding fr using for_freq_append [OF pre, of "value # post"] by (simp add: thn_run p)
  then show t: "main_try flt cfg wi = (Inl e, wE)"
    by (simp add: main_try_startup thn_run st)
  show "main flt cfg wi = (Inr (), wE\<lparr>trace := trace wE @ ev_stop\<rparr>)"
    by (simp add: main_def t stop_instruments_run)
qed

lemma first_passes_sampling:
  "first_passes flt cfg freq n_value vac k s w = (Inr s', w') \<Longrightarrow>
     sampling flt cfg freq n_value vac s w = sampling flt cfg freq n_value vac s' w'"
proof (induction k arbitrary: s w)
  case 0
  then show ?case by (simp add: ret_run)
next
  case (Suc k)
  show ?case
  proof (cases "l_i s < repeticoes cfg")
    case False
    with Suc.prems show ?thesis by (simp add: ret_run)
  next
    case True
    obtain r w1 where p: "repeticao flt cfg freq n_value vac s w = (r, w1)"
      by (cases "repeticao flt cfg freq n_value vac s w")
    with True Suc.prems obtain s1 where r: "r = Inr s1"
      and rest: "first_passes flt cfg freq n_value vac k s1 w1 = (Inr s', w')"
      by (cases r) (auto simp: bnd_run)
    show ?thesis
      using Suc.IH [OF rest] sampling_step [OF True p [unfolded r]] by simp
  qed
qed

lemma startup_run:
  "startup cfg \<lparr>trace = t, feed = f, registro = g\<rparr> =
     (Inr (), \<lparr>trace = t @ ev_startup cfg, feed = f, registro = g @ [Cabecalho]\<rparr>)"
  by (simp add: startup_def instrument_init_def meas_init_def criar_registro_def aquecimento_def
      source_write_def dvm_write_def sw_write_raw_def espera_def io_run ev_startup_def)

text \<open>
  Claim C3. The run has reached the frequency point \<open>value\<close> (the points \<open>pre\<close> before
  it are done) and this point has its linearity coefficients and its equilibrium AC voltage
  \<open>vac\<close>. If \<open>vac\<close> exceeds 1.1 times the nominal AC voltage, or if it does not and the
  corrected DC voltage \<open>adj_dc res\<close> that some pass of the sampling loop computes (the pass
  after the first \<open>k\<close> passes, whether its result is accepted or discarded) exceeds
  1.1 times the nominal DC voltage, then the body of \<open>main\<close> raises \<open>NameError\<close> in the
  world \<open>wE\<close> of that moment, and \<open>main\<close> returns after the commands of
  \<open>stop_instruments\<close> (switch to reset, both outputs of the source off) and nothing else:
  no reading, no row of the record file and no command for the rest of this point or for
  the points \<open>post\<close> that remain.
\<close>

theorem safety_bound_aborts:
  assumes fr: "freq_array cfg = pre @ value # post"
      and st: "startup cfg wi = (Inr (), w0)"
      and pre: "for_freq flt cfg pre w0 = (Inr (), w)"
      and fv: "flt value = Some fv"
      and n: "n_measure flt cfg (fmul fv (Fin 1000000)) 4 w = (Inr n_arr, w1)"
      and e: "equilibrio flt cfg (fmul fv (Fin 1000000)) w1 = (Inr vac, w2)"
      and cause:
        "fgt vac (fmul (Fin 1.1) (vac_nominal cfg))
           \<and> msg = ''Tensao AC ajustada perigosamente alta!''
           \<and> wE = w2\<lparr>registro := registro w2 @ [RegFrequencia value n_arr vac]\<rparr>
         \<or> \<not> fgt vac (fmul (Fin 1.1) (vac_nominal cfg))
           \<and> first_passes flt cfg (fmul fv (Fin 1000000)) (n_results n_arr) vac k (loop_init cfg)
               (w2\<lparr>registro := registro w2 @ [RegFrequencia value n_arr vac]\<rparr>) = (Inr s, ws)
           \<and> l_i s < repeticoes cfg
           \<and> ciclo_ac_of s ws = (Inr (c, s1), ws)
           \<and> measure_cycle flt cfg (fmul fv (Fin 1000000)) (l_vdc_atual s1) vac c ws = (Inr rd, wm)
           \<and> acdc_calc flt rd (n_results n_arr) (l_vdc_atual s1) = Inr res
           \<and> fgt (adj_dc res) (fmul (Fin 1.1) (vdc_nominal cfg))
           \<and> msg = ''Tensao DC ajustada perigosamente alta!''
           \<and> wE = wm\<lparr>registro := registro wm @ linha res (l_vdc_atual s1)\<rparr>"
  shows "main_try flt cfg wi = (Inl (NameError msg), wE)
       \<and> main flt cfg wi = (Inr (), wE\<lparr>trace := trace wE @ ev_stop\<rparr>)"
proof -
  let ?F = "fmul fv (Fin 1000000)"
  let ?w3 = "w2\<lparr>registro := registro w2 @ [RegFrequencia value n_arr vac]\<rparr>"
  have "ponto flt cfg value w = (Inl (NameError msg), wE)"
    using cause
  proof (elim disjE conjE)
    assume "fgt vac (fmul (Fin 1.1) (vac_nominal cfg))"
      "msg = ''Tensao AC ajustada perigosamente alta!''" "wE = ?w3"
    then show ?thesis
      by (simp add: ponto_run [OF fv n e])
  next
    assume ok: "\<not> fgt vac (fmul (Fin 1.1) (vac_nominal cfg))"
      and fp: "first_passes flt cfg ?F (n_results n_arr) vac k (loop_init cfg) ?w3 = (Inr s, ws)"
      and i: "l_i s < repeticoes cfg"
      and c: "ciclo_ac_of s ws = (Inr (c, s1), ws)"
      and m: "measure_cycle flt cfg ?F (l_vdc_atual s1) vac c ws = (Inr rd, wm)"
      and a: "acdc_calc flt rd (n_results n_arr) (l_vdc_atual s1) = Inr res"
      and hi: "fgt (adj_dc res) (fmul (Fin 1.1) (vdc_nominal cfg))"
      and msg: "msg = ''Tensao DC ajustada perigosamente alta!''"
      and wE: "wE = wm\<lparr>registro := registro wm @ linha res (l_vdc_atual s1)\<rparr>"
    have "repeticao flt cfg ?F (n_results n_arr) vac s ws = (Inl (NameError msg), wE)"
      using repeticao_run [OF c m a] hi
      by (cases wm) (simp add: msg wE linha_def accepted_def)
    then have "sampling flt cfg ?F (n_results n_arr) vac s ws = (Inl (NameError msg), wE)"
      using i by (rule sampling_raise [rotated])
    then have "sampling flt cfg ?F (n_results n_arr) vac (loop_init cfg) ?w3
                 = (Inl (NameError msg), wE)"
      using first_passes_sampling [OF fp] by simp
    then show ?thesis
      using ok by (simp add: ponto_run [OF fv n e])
  qed
  then show ?thesis
    using main_raises [OF fr st pre] by simp
qed

theorem safety_bound_aborts_witness:
  "(\<exists>na. main Some cfg_ex3
          \<lparr>trace = [],
           feed = [Fin 1, Fin 1, Fin 1.01, Fin 1.02, Fin 0.99, Fin 0.98,
                   Fin 1.01, Fin 1.02, Fin 0.99, Fin 0.98,
                   Fin 1.5, Fin 1, Fin 2,
                   Fin 3, Fin 1, Fin 2, Fin 1, Fin 3, Fin 1.003, Fin 2, Fin 1, Fin 3, Fin 1.003,
                   Fin 2, Fin 1, Fin 3, Fin 2, Fin 2, Fin 1, Fin 3, Fin 2,
                   Fin 7, Fin 7],
           registro = []\<rparr> =
        (Inr (),
         \<lparr>trace = ev_startup cfg_ex3 @ ev_n_baseline cfg_ex3 (Fin 1000000)
                    @ concat (map (ev_n_iter cfg_ex3) [1, 2, 3, 4]) @ [Switch ac]
                    @ ev_equilibrio cfg_ex3 (Fin 1000000)
                    @ ev_cycle cfg_ex3 (Fin 1000000) (Fin 10) (Fin 10) True
                    @ ev_cycle cfg_ex3 (Fin 1000000) (Fin 10.01) (Fin 10) False
                    @ ev_stop,
          feed = [Fin 7, Fin 7],
          registro = [Cabecalho, RegFrequencia (Fin 1) na (Fin 10)]\<rparr>))
   \<and> (\<exists>na. main Some cfg_neg
          \<lparr>trace = [],
           feed = [Fin 1, Fin 1, Fin 1.01, Fin 1.02, Fin 0.99, Fin 0.98,
                   Fin 1.01, Fin 1.02, Fin 0.99, Fin 0.98,
                   Fin 1.5, Fin 1, Fin 2, Fin 7],
           registro = []\<rparr> =
        (Inr (),
         \<lparr>trace = ev_startup cfg_neg @ ev_n_baseline cfg_neg (Fin 1000000)
                    @ concat (map (ev_n_iter cfg_neg) [1, 2, 3, 4]) @ [Switch ac]
                    @ ev_equilibrio cfg_neg (Fin 1000000)
                    @ ev_stop,
          feed = [Fin 7],
          registro = [Cabecalho, RegFrequencia (Fin 1) na (Fin (- 10))]\<rparr>))"
proof (rule conjI)
  let ?F = "Fin 1000000"
  let ?XS = "[Fin 1.01, Fin 0.99, Fin 1.01, Fin 0.99] :: npfloat list"
  let ?YS = "[Fin 1.02, Fin 0.98, Fin 1.02, Fin 0.98] :: npfloat list"
  let ?nv = "[Fin 1, Fin 0, Fin 2, Fin 0]"
  have u: "[1..4::int] = [1, 2, 3, 4]"
    by (simp add: upto.simps)
  have calc: "\<exists>na. n_calc Some (Fin 1 # ?XS) (Fin 1 # ?YS) (map n_weight [1, 2, 3, 4]) = Inr na
                    \<and> n_results na = ?nv"
    using n_calc_run [of Some "Fin 1" "Fin 1" "Fin 1" "Fin 1" ?XS ?XS ?YS ?YS
        "map n_weight [1, 2, 3, 4]"]
    by (simp add: n_weight_def fsub_def np_mean_def np_sum_def np_std_ddof1_def)
  show "\<exists>na. main Some cfg_ex3
          \<lparr>trace = [],
           feed = [Fin 1, Fin 1, Fin 1.01, Fin 1.02, Fin 0.99, Fin 0.98,
                   Fin 1.01, Fin 1.02, Fin 0.99, Fin 0.98,
                   Fin 1.5, Fin 1, Fin 2,
                   Fin 3, Fin 1, Fin 2, Fin 1, Fin 3, Fin 1.003, Fin 2, Fin 1, Fin 3, Fin 1.003,
                   Fin 2, Fin 1, Fin 3, Fin 2, Fin 2, Fin 1, Fin 3, Fin 2,
                   Fin 7, Fin 7],
           registro = []\<rparr> =
        (Inr (),
         \<lparr>trace = ev_startup cfg_ex3 @ ev_n_baseline cfg_ex3 (Fin 1000000)
                    @ concat (map (ev_n_iter cfg_ex3) [1, 2, 3, 4]) @ [Switch ac]
                    @ ev_equilibrio cfg_ex3 (Fin 1000000)
                    @ ev_cycle cfg_ex3 (Fin 1000000) (Fin 10) (Fin 10) True
                    @ ev_cycle cfg_ex3 (Fin 1000000) (Fin 10.01) (Fin 10) False
                    @ ev_stop,
          feed = [Fin 7, Fin 7],
          registro = [Cabecalho, RegFrequencia (Fin 1) na (Fin 10)]\<rparr>)"
  proof -
    let ?P3 = "[Fin 7, Fin 7] :: npfloat list"
    let ?P2 = "Fin 2 # Fin 1 # Fin 3 # Fin 2 # Fin 2 # Fin 1 # Fin 3 # Fin 2 # ?P3"
    let ?P1 = "Fin 3 # Fin 1 # Fin 2 # Fin 1 # Fin 3 # Fin (1003 / 1000) # Fin 2 # Fin 1 # Fin 3
                 # Fin (1003 / 1000) # ?P2"
    let ?FE = "Fin 1.5 # Fin 1 # Fin 2 # ?P1"
    let ?wi = "\<lparr>trace = [], feed = Fin 1 # Fin 1 # interleave ?XS ?YS @ ?FE,
               registro = []\<rparr> :: npfloat world"
    let ?t0 = "ev_startup cfg_ex3 :: event list"
    let ?w0 = "\<lparr>trace = ?t0, feed = Fin 1 # Fin 1 # interleave ?XS ?YS @ ?FE,
               registro = [Cabecalho]\<rparr> :: npfloat world"
    let ?rd1 = "\<lparr>std_readings = [Fin 3, Fin 2, Fin 3, Fin 2, Fin 3],
                dut_readings = [Fin 1, Fin 1, Fin (1003 / 1000), Fin 1, Fin (1003 / 1000)]\<rparr>
                :: npfloat readings"
    let ?rd2 = "\<lparr>std_readings = [Fin 3, Fin 2, Fin 3, Fin 2, Fin 3],
                dut_readings = [Fin (1003 / 1000), Fin 1, Fin 2, Fin 1, Fin 2]\<rparr>
                :: npfloat readings"
    have v: "vdc_nominal cfg_ex3 = Fin 10" "vac_nominal cfg_ex3 = Fin 10" "repeticoes cfg_ex3 = 1"
      "freq_array cfg_ex3 = [] @ Fin 1 # [Fin 2]"
      by (simp_all add: cfg_ex3_def cfg_ex_def)
    have st: "startup cfg_ex3 ?wi = (Inr (), ?w0)"
      by (simp add: startup_run)
    have pre: "for_freq Some cfg_ex3 [] ?w0 = (Inr (), ?w0)"
      by (simp add: ret_run)
    let ?t1 = "?t0 @ ev_n_baseline cfg_ex3 ?F @ concat (map (ev_n_iter cfg_ex3) [1, 2, 3, 4])
                 @ [Switch ac]"
    let ?w1 = "\<lparr>trace = ?t1, feed = ?FE, registro = [Cabecalho]\<rparr> :: npfloat world"
    have "n_measure Some cfg_ex3 ?F 4 ?w0 =
            (n_calc Some (Fin 1 # ?XS) (Fin 1 # ?YS) (map n_weight [1, 2, 3, 4]), ?w1)"
      using n_measure_run [of ?XS 4 ?YS Some "Fin 1" "Fin 1" cfg_ex3 ?F ?t0 ?FE "[Cabecalho]"]
      by (simp add: u)
    with calc obtain na where n: "n_measure Some cfg_ex3 ?F 4 ?w0 = (Inr na, ?w1)"
      and nr: "n_results na = ?nv"
      by auto
    let ?t2 = "?t1 @ ev_equilibrio cfg_ex3 ?F"
    let ?w2 = "\<lparr>trace = ?t2, feed = ?P1, registro = [Cabecalho]\<rparr> :: npfloat world"
    have e: "equilibrio Some cfg_ex3 ?F ?w1 = (Inr (Fin 10), ?w2)"
      by (simp add: equilibrio_run [of Some _ "Fin 1.5" _ "Fin 1" _ "Fin 2"] v np_interp_def
          fsub_def)
    let ?g3 = "[Cabecalho, RegFrequencia (Fin 1) na (Fin 10)]"
    let ?w3 = "\<lparr>trace = ?t2, feed = ?P1, registro = ?g3\<rparr> :: npfloat world"
    let ?s0 = "loop_init cfg_ex3 :: npfloat lstate"
    have s0: "l_first_measure ?s0" "l_vdc_atual ?s0 = Fin 10" "l_i ?s0 = 0"
      by (simp_all add: loop_init_def v)
    obtain res1 where a1: "acdc_calc Some ?rd1 ?nv (l_vdc_atual ?s0) = Inr res1"
      and r1: "Delta res1 = Fin 2000" "adj_dc res1 = Fin (1001 / 100)"
      by (simp add: acdc_calc_def idx_def ebind_def to_float_def np_mean_def np_sum_def fsub_def
          s0 Let_def)
    let ?s1 = "after_pass ?s0 ?rd1 res1"
    have s1: "\<not> l_first_measure ?s1" "l_vdc_atual ?s1 = Fin (1001 / 100)" "l_i ?s1 = 0"
      "l_readings ?s1 = Some ?rd1"
      by (simp_all add: after_pass_sel accepted_def r1 s0)
    let ?t4 = "?t2 @ ev_cycle cfg_ex3 ?F (Fin 10) (Fin 10) True"
    let ?w4 = "\<lparr>trace = ?t4, feed = ?P2, registro = ?g3\<rparr> :: npfloat world"
    have p1: "repeticao Some cfg_ex3 ?F ?nv (Fin 10) ?s0 ?w3 = (Inr ?s1, ?w4)"
      using repeticao_fresh [OF s0(1) _ a1, of cfg_ex3 ?F "Fin 10" ?t2 ?P2 ?g3]
      by (simp add: r1 v s0 linha_def accepted_def)
    have fp: "first_passes Some cfg_ex3 ?F ?nv (Fin 10) (Suc 0) ?s0 ?w3 = (Inr ?s1, ?w4)"
      using p1 by (simp add: bnd_run ret_run s0 v)
    have c: "ciclo_ac_of ?s1 ?w4 = (Inr ([Fin 3, Fin (1003 / 1000)], ?s1), ?w4)"
      using s1 by (simp add: ciclo_ac_of_def io_run idx_def)
    let ?t5 = "?t4 @ ev_cycle cfg_ex3 ?F (Fin (1001 / 100)) (Fin 10) False"
    let ?wm = "\<lparr>trace = ?t5, feed = ?P3, registro = ?g3\<rparr> :: npfloat world"
    have m: "measure_cycle Some cfg_ex3 ?F (l_vdc_atual ?s1) (Fin 10) [Fin 3, Fin (1003 / 1000)] ?w4
               = (Inr ?rd2, ?wm)"
      using measure_carry [of Some "Fin 3" "Fin (1003 / 1000)" "Fin 2" "Fin 1" "Fin 3" "Fin 2"
          "Fin 2" "Fin 1" "Fin 3" "Fin 2" cfg_ex3 ?F "Fin (1001 / 100)" "Fin 10" "[]" ?t4 ?P3 ?g3]
      by (simp add: s1 ev_cycle_def)
    obtain res2 where a2: "acdc_calc Some ?rd2 ?nv (l_vdc_atual ?s1) = Inr res2"
      and r2: "fgt (adj_dc res2) (Fin 11)" "\<not> accepted res2"
      by (simp add: acdc_calc_def idx_def ebind_def to_float_def np_mean_def np_sum_def fsub_def
          s1 Let_def accepted_def)
    have "main Some cfg_ex3 ?wi = (Inr (), ?wm\<lparr>trace := trace ?wm @ ev_stop\<rparr>)"
      using safety_bound_aborts [of cfg_ex3 "[]" "Fin 1" "[Fin 2]" ?wi ?w0 Some ?w0 "Fin 1" na
          ?w1 "Fin 10" ?w2 "''Tensao DC ajustada perigosamente alta!''" ?wm "Suc 0" ?s1 ?w4
          "[Fin 3, Fin (1003 / 1000)]" ?s1 ?rd2 ?wm res2]
        st pre n e fp c m a2 r2
      by (simp add: v nr s1 linha_def)
    then show ?thesis
      by (intro exI [of _ na]) (simp add: interleave_def)
  qed
  show "\<exists>na. main Some cfg_neg
          \<lparr>trace = [],
           feed = [Fin 1, Fin 1, Fin 1.01, Fin 1.02, Fin 0.99, Fin 0.98,
                   Fin 1.01, Fin 1.02, Fin 0.99, Fin 0.98,
                   Fin 1.5, Fin 1, Fin 2, Fin 7],
           registro = []\<rparr> =
        (Inr (),
         \<lparr>trace = ev_startup cfg_neg @ ev_n_baseline cfg_neg (Fin 1000000)
                    @ concat (map (ev_n_iter cfg_neg) [1, 2, 3, 4]) @ [Switch ac]
                    @ ev_equilibrio cfg_neg (Fin 1000000)
                    @ ev_stop,
          feed = [Fin 7],
          registro = [Cabecalho, RegFrequencia (Fin 1) na (Fin (- 10))]\<rparr>)"
  proof -
    let ?P1 = "[Fin 7] :: npfloat list"
    let ?FE = "Fin 1.5 # Fin 1 # Fin 2 # ?P1"
    let ?wi = "\<lparr>trace = [], feed = Fin 1 # Fin 1 # interleave ?XS ?YS @ ?FE,
               registro = []\<rparr> :: npfloat world"
    let ?t0 = "ev_startup cfg_neg :: event list"
    let ?w0 = "\<lparr>trace = ?t0, feed = Fin 1 # Fin 1 # interleave ?XS ?YS @ ?FE,
               registro = [Cabecalho]\<rparr> :: npfloat world"
    have v: "vdc_nominal cfg_neg = Fin 10" "vac_nominal cfg_neg = Fin (- 10)"
      "freq_array cfg_neg = [] @ Fin 1 # [Fin 2]"
      by (simp_all add: cfg_neg_def cfg_ex_def)
    have st: "startup cfg_neg ?wi = (Inr (), ?w0)"
      by (simp add: startup_run)
    have pre: "for_freq Some cfg_neg [] ?w0 = (Inr (), ?w0)"
      by (simp add: ret_run)
    let ?t1 = "?t0 @ ev_n_baseline cfg_neg ?F @ concat (map (ev_n_iter cfg_neg) [1, 2, 3, 4])
                 @ [Switch ac]"
    let ?w1 = "\<lparr>trace = ?t1, feed = ?FE, registro = [Cabecalho]\<rparr> :: npfloat world"
    have "n_measure Some cfg_neg ?F 4 ?w0 =
            (n_calc Some (Fin 1 # ?XS) (Fin 1 # ?YS) (map n_weight [1, 2, 3, 4]), ?w1)"
      using n_measure_run [of ?XS 4 ?YS Some "Fin 1" "Fin 1" cfg_neg ?F ?t0 ?FE "[Cabecalho]"]
      by (simp add: u)
    with calc obtain na where n: "n_measure Some cfg_neg ?F 4 ?w0 = (Inr na, ?w1)"
      by auto
    let ?t2 = "?t1 @ ev_equilibrio cfg_neg ?F"
    let ?w2 = "\<lparr>trace = ?t2, feed = ?P1, registro = [Cabecalho]\<rparr> :: npfloat world"
    have e: "equilibrio Some cfg_neg ?F ?w1 = (Inr (Fin (- 10)), ?w2)"
      by (simp add: equilibrio_run [of Some _ "Fin 1.5" _ "Fin 1" _ "Fin 2"] v np_interp_def
          fsub_def)
    let ?w3 = "\<lparr>trace = ?t2, feed = ?P1,
               registro = [Cabecalho, RegFrequencia (Fin 1) na (Fin (- 10))]\<rparr> :: npfloat world"
    have "main Some cfg_neg ?wi = (Inr (), ?w3\<lparr>trace := trace ?w3 @ ev_stop\<rparr>)"
      using safety_bound_aborts [of cfg_neg "[]" "Fin 1" "[Fin 2]" ?wi ?w0 Some ?w0 "Fin 1" na
          ?w1 "Fin (- 10)" ?w2 "''Tensao AC ajustada perigosamente alta!''" ?w3]
        st pre n e
      by (simp add: v)
    then show ?thesis
      by (intro exI [of _ na]) (simp add: interleave_def)
  qed
qed


section \<open>Properties of a frequency point with non-finite coefficients\<close>

text \<open>
  A frequency point run on a standard that reads 0 V throughout the linearity
  estimation: the coefficient of the standard is \<open>0 / 0\<close>.
\<close>

lemma nan_run:
  "\<exists>na res.
     n_measure Some cfg_ex (Fin 1000000) 4
       \<lparr>trace = [],
        feed = [Fin 0, Fin 1, Fin 0, Fin 1.02, Fin 0, Fin 0.98, Fin 0, Fin 1.02, Fin 0, Fin 0.98,
                Fin 1.5, Fin 1, Fin 2,
                Fin 3, Fin 1, Fin 2, Fin 1, Fin 3, Fin 1, Fin 2, Fin 1, Fin 3, Fin 1],
        registro = []\<rparr> =
       (Inr na,
        \<lparr>trace = ev_n_baseline cfg_ex (Fin 1000000)
                   @ concat (map (ev_n_iter cfg_ex) [1, 2, 3, 4]) @ [Switch ac],
         feed = [Fin 1.5, Fin 1, Fin 2,
                 Fin 3, Fin 1, Fin 2, Fin 1, Fin 3, Fin 1, Fin 2, Fin 1, Fin 3, Fin 1],
         registro = []\<rparr>)
   \<and> n_results na = [NaN, NaN, Fin 2, Fin 0]
   \<and> equilibrio Some cfg_ex (Fin 1000000)
        \<lparr>trace = ev_n_baseline cfg_ex (Fin 1000000)
                   @ concat (map (ev_n_iter cfg_ex) [1, 2, 3, 4]) @ [Switch ac],
         feed = [Fin 1.5, Fin 1, Fin 2,
                 Fin 3, Fin 1, Fin 2, Fin 1, Fin 3, Fin 1, Fin 2, Fin 1, Fin 3, Fin 1],
         registro = []\<rparr> =
       (Inr (Fin 10),
        \<lparr>trace = ev_n_baseline cfg_ex (Fin 1000000)
                   @ concat (map (ev_n_iter cfg_ex) [1, 2, 3, 4]) @ [Switch ac]
                   @ ev_equilibrio cfg_ex (Fin 1000000),
         feed = [Fin 3, Fin 1, Fin 2, Fin 1, Fin 3, Fin 1, Fin 2, Fin 1, Fin 3, Fin 1],
         registro = []\<rparr>)
   \<and> sampling Some cfg_ex (Fin 1000000) (n_results na) (Fin 10) (loop_init cfg_ex)
        \<lparr>trace = ev_n_baseline cfg_ex (Fin 1000000)
                   @ concat (map (ev_n_iter cfg_ex) [1, 2, 3, 4]) @ [Switch ac]
                   @ ev_equilibrio cfg_ex (Fin 1000000),
         feed = [Fin 3, Fin 1, Fin 2, Fin 1, Fin 3, Fin 1, Fin 2, Fin 1, Fin 3, Fin 1],
         registro = [RegFrequencia (Fin 1) na (Fin 10)]\<rparr> =
       (Inr (after_pass (loop_init cfg_ex)
               \<lparr>std_readings = [Fin 3, Fin 2, Fin 3, Fin 2, Fin 3],
                dut_readings = [Fin 1, Fin 1, Fin 1, Fin 1, Fin 1]\<rparr> res),
        \<lparr>trace = ev_n_baseline cfg_ex (Fin 1000000)
                   @ concat (map (ev_n_iter cfg_ex) [1, 2, 3, 4]) @ [Switch ac]
                   @ ev_equilibrio cfg_ex (Fin 1000000)
                   @ ev_cycle cfg_ex (Fin 1000000) (Fin 10) (Fin 10) True,
         feed = [],
         registro = [RegFrequencia (Fin 1) na (Fin 10), RegLinha res (Fin 10)]\<rparr>)
   \<and> dif res = NaN \<and> accepted res"
proof -
  let ?F = "Fin 1000000"
  let ?XS = "[Fin 0, Fin 0, Fin 0, Fin 0] :: npfloat list"
  let ?YS = "[Fin 1.02, Fin 0.98, Fin 1.02, Fin 0.98] :: npfloat list"
  let ?nv = "[NaN, NaN, Fin 2, Fin 0]"
  let ?P2 = "[] :: npfloat list"
  let ?P1 = "Fin 3 # Fin 1 # Fin 2 # Fin 1 # Fin 3 # Fin 1 # Fin 2 # Fin 1 # Fin 3 # Fin 1 # ?P2"
  let ?FE = "Fin 1.5 # Fin 1 # Fin 2 # ?P1"
  let ?w0 = "\<lparr>trace = [], feed = Fin 0 # Fin 1 # interleave ?XS ?YS @ ?FE,
             registro = []\<rparr> :: npfloat world"
  let ?rd1 = "\<lparr>std_readings = [Fin 3, Fin 2, Fin 3, Fin 2, Fin 3],
              dut_readings = [Fin 1, Fin 1, Fin 1, Fin 1, Fin 1]\<rparr> :: npfloat readings"
  have v: "vdc_nominal cfg_ex = Fin 10" "vac_nominal cfg_ex = Fin 10" "repeticoes cfg_ex = 1"
    by (simp_all add: cfg_ex_def)
  have u: "[1..4::int] = [1, 2, 3, 4]"
    by (simp add: upto.simps)
  have calc: "\<exists>na. n_calc Some (Fin 0 # ?XS) (Fin 1 # ?YS) (map n_weight [1, 2, 3, 4]) = Inr na
                    \<and> n_results na = ?nv"
    using n_calc_run [of Some "Fin 0" "Fin 0" "Fin 1" "Fin 1" ?XS ?XS ?YS ?YS
        "map n_weight [1, 2, 3, 4]"]
    by (simp add: n_weight_def fsub_def np_mean_def np_sum_def np_std_ddof1_def)
  let ?t1 = "ev_n_baseline cfg_ex ?F @ concat (map (ev_n_iter cfg_ex) [1, 2, 3, 4]) @ [Switch ac]"
  let ?w1 = "\<lparr>trace = ?t1, feed = ?FE, registro = []\<rparr> :: npfloat world"
  have "n_measure Some cfg_ex ?F 4 ?w0 =
          (n_calc Some (Fin 0 # ?XS) (Fin 1 # ?YS) (map n_weight [1, 2, 3, 4]), ?w1)"
    using n_measure_run [of ?XS 4 ?YS Some "Fin 0" "Fin 1" cfg_ex ?F "[]" ?FE "[]"]
    by (simp add: u)
  with calc obtain na where n: "n_measure Some cfg_ex ?F 4 ?w0 = (Inr na, ?w1)"
    and nr: "n_results na = ?nv"
    by auto
  let ?t2 = "?t1 @ ev_equilibrio cfg_ex ?F"
  let ?w2 = "\<lparr>trace = ?t2, feed = ?P1, registro = []\<rparr> :: npfloat world"
  have e: "equilibrio Some cfg_ex ?F ?w1 = (Inr (Fin 10), ?w2)"
    by (simp add: equilibrio_run [of Some _ "Fin 1.5" _ "Fin 1" _ "Fin 2"] v np_interp_def fsub_def)
  let ?g3 = "[RegFrequencia (Fin 1) na (Fin 10)]"
  let ?w3 = "\<lparr>trace = ?t2, feed = ?P1, registro = ?g3\<rparr> :: npfloat world"
  let ?s0 = "loop_init cfg_ex :: npfloat lstate"
  have s0: "l_first_measure ?s0" "l_vdc_atual ?s0 = Fin 10" "l_i ?s0 = 0"
    by (simp_all add: loop_init_def v)
  obtain res1 where a1: "acdc_calc Some ?rd1 ?nv (l_vdc_atual ?s0) = Inr res1"
    and r1: "dif res1 = NaN" "Delta res1 = Fin 0" "adj_dc res1 = Fin 10"
    by (simp add: acdc_calc_def idx_def ebind_def to_float_def np_mean_def np_sum_def fsub_def
        s0 Let_def)
  let ?s1 = "after_pass ?s0 ?rd1 res1"
  have s1: "l_i ?s1 = 1"
    by (simp_all add: after_pass_sel accepted_def r1 s0)
  let ?t4 = "?t2 @ ev_cycle cfg_ex ?F (Fin 10) (Fin 10) True"
  let ?w4 = "\<lparr>trace = ?t4, feed = ?P2, registro = ?g3 @ [RegLinha res1 (Fin 10)]\<rparr> :: npfloat world"
  have p1: "repeticao Some cfg_ex ?F ?nv (Fin 10) ?s0 ?w3 = (Inr ?s1, ?w4)"
    using repeticao_fresh [OF s0(1) _ a1, of cfg_ex ?F "Fin 10" ?t2 ?P2 ?g3]
    by (simp add: r1 v s0 linha_def accepted_def)
  have "sampling Some cfg_ex ?F ?nv (Fin 10) ?s0 ?w3 =
          sampling Some cfg_ex ?F ?nv (Fin 10) ?s1 ?w4"
    by (rule sampling_step [OF _ p1]) (simp add: s0 v)
  also have "\<dots> = (Inr ?s1, ?w4)"
    by (rule sampling_stop) (simp add: s1 v)
  finally have smp: "sampling Some cfg_ex ?F ?nv (Fin 10) ?s0 ?w3 = (Inr ?s1, ?w4)" .
  have acc: "accepted res1"
    by (simp add: accepted_def r1)
  show ?thesis
    using n nr e smp r1(1) acc
    by (intro exI [of _ na] exI [of _ res1]) (simp add: interleave_def)
qed

text \<open>
  Claim C9 says that after the linearity estimation with count 4 the controller goes to
  a fault, before equilibrium and sampling, if the mean of either channel is not finite.
  The source has no such check. In the run above the mean of the standard is NaN, and
  the point goes on: it finds the equilibrium voltage, runs one cycle, accepts it, and
  writes the summary of a difference that is NaN. Nothing is raised.
\<close>

theorem linearity_fault_counterexample:
  "\<exists>na res.
     n_measure Some cfg_ex (Fin 1000000) 4
       \<lparr>trace = [],
        feed = [Fin 0, Fin 1, Fin 0, Fin 1.02, Fin 0, Fin 0.98, Fin 0, Fin 1.02, Fin 0, Fin 0.98,
                Fin 1.5, Fin 1, Fin 2,
                Fin 3, Fin 1, Fin 2, Fin 1, Fin 3, Fin 1, Fin 2, Fin 1, Fin 3, Fin 1],
        registro = []\<rparr> =
       (Inr na,
        \<lparr>trace = ev_n_baseline cfg_ex (Fin 1000000)
                   @ concat (map (ev_n_iter cfg_ex) [1, 2, 3, 4]) @ [Switch ac],
         feed = [Fin 1.5, Fin 1, Fin 2,
                 Fin 3, Fin 1, Fin 2, Fin 1, Fin 3, Fin 1, Fin 2, Fin 1, Fin 3, Fin 1],
         registro = []\<rparr>)
   \<and> \<not> isfinite (n_results na ! 0)
   \<and> ponto Some cfg_ex (Fin 1)
       \<lparr>trace = [],
        feed = [Fin 0, Fin 1, Fin 0, Fin 1.02, Fin 0, Fin 0.98, Fin 0, Fin 1.02, Fin 0, Fin 0.98,
                Fin 1.5, Fin 1, Fin 2,
                Fin 3, Fin 1, Fin 2, Fin 1, Fin 3, Fin 1, Fin 2, Fin 1, Fin 3, Fin 1],
        registro = []\<rparr> =
       (Inr (),
        \<lparr>trace = ev_n_baseline cfg_ex (Fin 1000000)
                   @ concat (map (ev_n_iter cfg_ex) [1, 2, 3, 4]) @ [Switch ac]
                   @ ev_equilibrio cfg_ex (Fin 1000000)
                   @ ev_cycle cfg_ex (Fin 1000000) (Fin 10) (Fin 10) True,
         feed = [],
         registro = [RegFrequencia (Fin 1) na (Fin 10), RegLinha res (Fin 10),
                     RegMedia (np_mean [NaN]) (np_std_ddof1 [NaN])]\<rparr>)"
proof -
  from nan_run obtain na res where
    n: "n_measure Some cfg_ex (Fin 1000000) 4
       \<lparr>trace = [],
        feed = [Fin 0, Fin 1, Fin 0, Fin 1.02, Fin 0, Fin 0.98, Fin 0, Fin 1.02, Fin 0, Fin 0.98,
                Fin 1.5, Fin 1, Fin 2,
                Fin 3, Fin 1, Fin 2, Fin 1, Fin 3, Fin 1, Fin 2, Fin 1, Fin 3, Fin 1],
        registro = []\<rparr> =
       (Inr na,
        \<lparr>trace = ev_n_baseline cfg_ex (Fin 1000000)
                   @ concat (map (ev_n_iter cfg_ex) [1, 2, 3, 4]) @ [Switch ac],
         feed = [Fin 1.5, Fin 1, Fin 2,
                 Fin 3, Fin 1, Fin 2, Fin 1, Fin 3, Fin 1, Fin 2, Fin 1, Fin 3, Fin 1],
         registro = []\<rparr>)"
    and nr: "n_results na = [NaN, NaN, Fin 2, Fin 0]"
    and e: "equilibrio Some cfg_ex (Fin 1000000)
        \<lparr>trace = ev_n_baseline cfg_ex (Fin 1000000)
                   @ concat (map (ev_n_iter cfg_ex) [1, 2, 3, 4]) @ [Switch ac],
         feed = [Fin 1.5, Fin 1, Fin 2,
                 Fin 3, Fin 1, Fin 2, Fin 1, Fin 3, Fin 1, Fin 2, Fin 1, Fin 3, Fin 1],
         registro = []\<rparr> =
       (Inr (Fin 10),
        \<lparr>trace = ev_n_baseline cfg_ex (Fin 1000000)
                   @ concat (map (ev_n_iter cfg_ex) [1, 2, 3, 4]) @ [Switch ac]
                   @ ev_equilibrio cfg_ex (Fin 1000000),
         feed = [Fin 3, Fin 1, Fin 2, Fin 1, Fin 3, Fin 1, Fin 2, Fin 1, Fin 3, Fin 1],
         registro = []\<rparr>)"
    and smp: "sampling Some cfg_ex (Fin 1000000) (n_results na) (Fin 10) (loop_init cfg_ex)
        \<lparr>trace = ev_n_baseline cfg_ex (Fin 1000000)
                   @ concat (map (ev_n_iter cfg_ex) [1, 2, 3, 4]) @ [Switch ac]
                   @ ev_equilibrio cfg_ex (Fin 1000000),
         feed = [Fin 3, Fin 1, Fin 2, Fin 1, Fin 3, Fin 1, Fin 2, Fin 1, Fin 3, Fin 1],
         registro = [RegFrequencia (Fin 1) na (Fin 10)]\<rparr> =
       (Inr (after_pass (loop_init cfg_ex)
               \<lparr>std_readings = [Fin 3, Fin 2, Fin 3, Fin 2, Fin 3],
                dut_readings = [Fin 1, Fin 1, Fin 1, Fin 1, Fin 1]\<rparr> res),
        \<lparr>trace = ev_n_baseline cfg_ex (Fin 1000000)
                   @ concat (map (ev_n_iter cfg_ex) [1, 2, 3, 4]) @ [Switch ac]
                   @ ev_equilibrio cfg_ex (Fin 1000000)
                   @ ev_cycle cfg_ex (Fin 1000000) (Fin 10) (Fin 10) True,
         feed = [],
         registro = [RegFrequencia (Fin 1) na (Fin 10), RegLinha res (Fin 10)]\<rparr>)"
    and r: "dif res = NaN" "accepted res"
    by blast
  have "ponto Some cfg_ex (Fin 1)
       \<lparr>trace = [],
        feed = [Fin 0, Fin 1, Fin 0, Fin 1.02, Fin 0, Fin 0.98, Fin 0, Fin 1.02, Fin 0, Fin 0.98,
                Fin 1.5, Fin 1, Fin 2,
                Fin 3, Fin 1, Fin 2, Fin 1, Fin 3, Fin 1, Fin 2, Fin 1, Fin 3, Fin 1],
        registro = []\<rparr> =
       (Inr (),
        \<lparr>trace = ev_n_baseline cfg_ex (Fin 1000000)
                   @ concat (map (ev_n_iter cfg_ex) [1, 2, 3, 4]) @ [Switch ac]
                   @ ev_equilibrio cfg_ex (Fin 1000000)
                   @ ev_cycle cfg_ex (Fin 1000000) (Fin 10) (Fin 10) True,
         feed = [],
         registro = [RegFrequencia (Fin 1) na (Fin 10), RegLinha res (Fin 10),
                     RegMedia (np_mean [NaN]) (np_std_ddof1 [NaN])]\<rparr>)"
    using ponto_run [of Some "Fin 1" "Fin 1" cfg_ex _ na _ "Fin 10"] n e smp
    by (simp add: cfg_ex_def after_pass_sel loop_init_def r)
  with n nr show ?thesis
    by (intro exI [of _ na] exI [of _ res]) simp
qed

text \<open>
  Claim C9, as the source has it. When the linearity estimation with count 4 returns
  coefficients of which a mean is not finite, the frequency point continues as with any
  other coefficients: if the equilibrium voltage is found and within its bound and the
  sampling loop ends, the point returns normally, with the summary row of the loop
  written after what equilibrium and sampling did. The coefficients are passed to the
  loop as they are.
\<close>

theorem nonfinite_linearity_continues:
  assumes fv: "flt value = Some fv"
      and n: "n_measure flt cfg (fmul fv (Fin 1000000)) 4 w = (Inr n_arr, w1)"
      and nf: "\<not> isfinite (n_results n_arr ! 0) \<or> \<not> isfinite (n_results n_arr ! 2)"
      and e: "equilibrio flt cfg (fmul fv (Fin 1000000)) w1 = (Inr vac, w2)"
      and ok: "\<not> fgt vac (fmul (Fin 1.1) (vac_nominal cfg))"
      and smp: "sampling flt cfg (fmul fv (Fin 1000000)) (n_results n_arr) vac (loop_init cfg)
                  (w2\<lparr>registro := registro w2 @ [RegFrequencia value n_arr vac]\<rparr>) = (Inr s, w4)"
  shows "ponto flt cfg value w =
           (Inr (), w4\<lparr>registro := registro w4 @
                          [RegMedia (np_mean (l_diff_acdc s)) (np_std_ddof1 (l_diff_acdc s))]\<rparr>)"
  using ok smp by (simp add: ponto_run [OF fv n e])

theorem nonfinite_linearity_continues_witness:
  "\<exists>na w'.
     fst (n_measure Some cfg_ex (Fin 1000000) 4
       \<lparr>trace = [],
        feed = [Fin 0, Fin 1, Fin 0, Fin 1.02, Fin 0, Fin 0.98, Fin 0, Fin 1.02, Fin 0, Fin 0.98,
                Fin 1.5, Fin 1, Fin 2,
                Fin 3, Fin 1, Fin 2, Fin 1, Fin 3, Fin 1, Fin 2, Fin 1, Fin 3, Fin 1],
        registro = []\<rparr>) = Inr na
   \<and> n_results na ! 0 = NaN
   \<and> ponto Some cfg_ex (Fin 1)
       \<lparr>trace = [],
        feed = [Fin 0, Fin 1, Fin 0, Fin 1.02, Fin 0, Fin 0.98, Fin 0, Fin 1.02, Fin 0, Fin 0.98,
                Fin 1.5, Fin 1, Fin 2,
                Fin 3, Fin 1, Fin 2, Fin 1, Fin 3, Fin 1, Fin 2, Fin 1, Fin 3, Fin 1],
        registro = []\<rparr> = (Inr (), w')
   \<and> feed w' = []
   \<and> last (registro w') = RegMedia (np_mean [NaN]) (np_std_ddof1 [NaN])"
proof -
  let ?wi = "\<lparr>trace = [],
        feed = [Fin 0, Fin 1, Fin 0, Fin 1.02, Fin 0, Fin 0.98, Fin 0, Fin 1.02, Fin 0, Fin 0.98,
                Fin 1.5, Fin 1, Fin 2,
                Fin 3, Fin 1, Fin 2, Fin 1, Fin 3, Fin 1, Fin 2, Fin 1, Fin 3, Fin 1],
        registro = []\<rparr> :: npfloat world"
  let ?w1 = "\<lparr>trace = ev_n_baseline cfg_ex (Fin 1000000)
                   @ concat (map (ev_n_iter cfg_ex) [1, 2, 3, 4]) @ [Switch ac],
         feed = [Fin 1.5, Fin 1, Fin 2,
                 Fin 3, Fin 1, Fin 2, Fin 1, Fin 3, Fin 1, Fin 2, Fin 1, Fin 3, Fin 1],
         registro = []\<rparr> :: npfloat world"
  let ?w2 = "\<lparr>trace = ev_n_baseline cfg_ex (Fin 1000000)
                   @ concat (map (ev_n_iter cfg_ex) [1, 2, 3, 4]) @ [Switch ac]
                   @ ev_equilibrio cfg_ex (Fin 1000000),
         feed = [Fin 3, Fin 1, Fin 2, Fin 1, Fin 3, Fin 1, Fin 2, Fin 1, Fin 3, Fin 1],
         registro = []\<rparr> :: npfloat world"
  let ?rd = "\<lparr>std_readings = [Fin 3, Fin 2, Fin 3, Fin 2, Fin 3],
             dut_readings = [Fin 1, Fin 1, Fin 1, Fin 1, Fin 1]\<rparr> :: npfloat readings"
  let ?t4 = "ev_n_baseline cfg_ex (Fin 1000000)
                   @ concat (map (ev_n_iter cfg_ex) [1, 2, 3, 4]) @ [Switch ac]
                   @ ev_equilibrio cfg_ex (Fin 1000000)
                   @ ev_cycle cfg_ex (Fin 1000000) (Fin 10) (Fin 10) True"
  from nan_run obtain na res where
    n: "n_measure Some cfg_ex (Fin 1000000) 4 ?wi = (Inr na, ?w1)"
    and nr: "n_results na = [NaN, NaN, Fin 2, Fin 0]"
    and e: "equilibrio Some cfg_ex (Fin 1000000) ?w1 = (Inr (Fin 10), ?w2)"
    and smp: "sampling Some cfg_ex (Fin 1000000) (n_results na) (Fin 10) (loop_init cfg_ex)
        \<lparr>trace = trace ?w2, feed = feed ?w2,
         registro = [RegFrequencia (Fin 1) na (Fin 10)]\<rparr> =
       (Inr (after_pass (loop_init cfg_ex) ?rd res),
        \<lparr>trace = ?t4, feed = [],
         registro = [RegFrequencia (Fin 1) na (Fin 10), RegLinha res (Fin 10)]\<rparr>)"
    and r: "dif res = NaN" "accepted res"
    by auto
  let ?w4 = "\<lparr>trace = ?t4, feed = [],
         registro = [RegFrequencia (Fin 1) na (Fin 10), RegLinha res (Fin 10)]\<rparr> :: npfloat world"
  let ?w5 = "\<lparr>trace = ?t4, feed = [],
         registro = [RegFrequencia (Fin 1) na (Fin 10), RegLinha res (Fin 10),
                     RegMedia (np_mean [NaN]) (np_std_ddof1 [NaN])]\<rparr> :: npfloat world"
  have "ponto Some cfg_ex (Fin 1) ?wi = (Inr (), ?w5)"
    using nonfinite_linearity_continues [of Some "Fin 1" "Fin 1" cfg_ex ?wi na ?w1 "Fin 10" ?w2
        "after_pass (loop_init cfg_ex) ?rd res" ?w4] n nr e smp r
    by (simp add: cfg_ex_def after_pass_sel loop_init_def)
  then show ?thesis
    using n nr
    by (intro exI [of _ na] exI [of _ ?w5]) simp
qed


end
